theory Spec2Isabelle
  imports Complex_Main "HOL-Library.Log_Nat"
begin

section \<open>Conventions of the embedding\<close>

text \<open>
  The repository is Python 2 code on top of the DOLFIN finite-element library. A Python float
  is embedded as the \<^typ>\<open>real\<close> number it stands for (no NaN and no infinity). In the time
  stepping of \<open>solve_primal\<close>, where the end of the run is decided by a comparison of floats,
  every arithmetic operation rounds its exact result to a float; elsewhere the arithmetic is
  exact. The iteration bound is an \<^typ>\<open>int\<close>, counters and indices are \<^typ>\<open>nat\<close>, DOLFIN
  vectors of degrees of freedom are \<^typ>\<open>real list\<close>. Functions that live outside the four
  source files (the physics solvers, the error estimator, mesh refinement, storage) are taken
  as parameters, collected in records of collaborators that act on an abstract world \<open>'w\<close>
  (the problem object together with everything the collaborators keep). Calls that only
  report or persist (\<open>info\<close>, \<open>begin\<close>, \<open>end\<close>, \<open>save_mesh\<close>, ...) are recorded, in
  order, in a trace of events. Locals of a function become fields of a state record; a local
  that may still be unassigned when it is read is an \<^typ>\<open>'a option\<close>, and reading it while
  unassigned raises \<open>UnboundLocalError\<close>, as Python does.
\<close>

datatype error =
    FSI_not_converged int   \<comment> \<open>\<open>RuntimeError, "FSI iteration failed to converge after %d iterations." % maxiter\<close>\<close>
  | UnboundLocalError string \<comment> \<open>read of a local variable before any assignment\<close>
  | IndexError               \<comment> \<open>index out of range in an array access\<close>
  | AttributeError string    \<comment> \<open>read of an attribute that was never set\<close>
  | ValueError               \<comment> \<open>slice assignment between arrays of different shapes\<close>
  | TypeError nat nat        \<comment> \<open>\<open>"__init__() takes exactly %d arguments (%d given)"\<close>\<close>
  | DolfinError string       \<comment> \<open>error raised inside DOLFIN, by the operation named\<close>

text \<open>How a pass through the body of a loop ends: the loop goes on, is left by \<open>break\<close>, or
  an exception leaves the function.\<close>

datatype 's outcome = Continue 's | Break 's | Raise error 's

fun outcome_state :: "'s outcome \<Rightarrow> 's" where
  "outcome_state (Continue s) = s"
| "outcome_state (Break s) = s"
| "outcome_state (Raise e s) = s"

text \<open>The entries of the dictionary \<open>parameters\<close> that the two solvers read (prefixed
  \<open>p_\<close>).\<close>

record parameters =
  p_tolerance :: real
  p_w_h :: real
  p_w_k :: real
  p_w_c :: real
  p_solve_primal :: bool
  p_solve_dual :: bool
  p_estimate_error :: bool
  p_save_solution :: bool
  p_plot_solution :: bool
  p_uniform_timestep :: bool
  p_maximum_iterations :: int
  p_num_smoothings :: nat

section \<open>The adaptive loop: \<open>FSISolver.solve\<close> (fsisolver.py)\<close>

datatype ('m, 'i) event =
    Begin string
  | End
  | Info string
  | InfoGreen string "real list"
  | InfoRed string "real list"
  | InfoBlue string "real list"
  | SolvePrimal real           \<comment> \<open>\<open>solve_primal(self.problem, parameters, ST)\<close>\<close>
  | SolveDual                  \<comment> \<open>\<open>solve_dual(self.problem, parameters)\<close>\<close>
  | EstimateError              \<comment> \<open>\<open>estimate_error(self.problem, parameters)\<close>\<close>
  | Refine 'm                  \<comment> \<open>\<open>refine(mesh)\<close>, DOLFIN's uniform refinement\<close>
  | RefineMesh 'm 'i           \<comment> \<open>\<open>refine_mesh(self.problem, mesh, indicators)\<close>\<close>
  | InitMeshes 'm              \<comment> \<open>\<open>self.problem.init_meshes(refined_mesh)\<close>\<close>
  | SaveMesh 'm                \<comment> \<open>\<open>save_mesh(mesh)\<close>\<close>

text \<open>The collaborators of the adaptive loop. \<open>c_solve_primal\<close> may raise (see
  \<open>solve_primal\<close> below); the others are total.\<close>

record ('w, 'm, 'i) adaptivity =
  c_solve_primal :: "'w \<Rightarrow> real \<Rightarrow> (error + real) \<times> 'w"
  c_solve_dual :: "'w \<Rightarrow> 'w"
  c_estimate_error :: "'w \<Rightarrow> (real \<times> 'i \<times> real \<times> real) \<times> 'w"
  c_mesh :: "'w \<Rightarrow> 'm"
  c_convergence_test :: "'w \<Rightarrow> bool"
  c_problem_estimate_error :: "'w \<Rightarrow> bool"
  c_refine :: "'m \<Rightarrow> 'm"
  c_refine_mesh :: "'w \<Rightarrow> 'm \<Rightarrow> 'i \<Rightarrow> 'm \<times> 'w"
  c_init_meshes :: "'m \<Rightarrow> 'w \<Rightarrow> 'w"

text \<open>The locals of \<open>FSISolver.solve\<close> that live across iterations, with the problem
  object and the trace.\<close>

record ('w, 'm, 'i) solver_state =
  problem :: 'w
  trace :: "('m, 'i) event list"
  ST :: real
  goal_functional :: "real option"
  E_h :: "real option"
  indicators :: "'i option"

definition say :: "('m, 'i) event list \<Rightarrow> ('w, 'm, 'i) solver_state \<Rightarrow> ('w, 'm, 'i) solver_state" where
  "say evs s = s\<lparr>trace := trace s @ evs\<rparr>"

text \<open>Lines 50--56: the primal solve, when configured.\<close>

definition primal_phase ::
  "('w, 'm, 'i) adaptivity \<Rightarrow> parameters \<Rightarrow> ('w, 'm, 'i) solver_state
    \<Rightarrow> error \<times> ('w, 'm, 'i) solver_state + ('w, 'm, 'i) solver_state" where
  "primal_phase c p s =
     (if p_solve_primal p then
        (let s1 = say [Begin ''Solving primal problem'', SolvePrimal (ST s)] s in
         case c_solve_primal c (problem s1) (ST s1) of
           (Inl e, w) \<Rightarrow> Inl (e, s1\<lparr>problem := w\<rparr>)
         | (Inr g, w) \<Rightarrow> Inr (say [End] (s1\<lparr>problem := w, goal_functional := Some g\<rparr>)))
      else Inr (say [Info ''Not solving primal problem''] s))"

text \<open>Lines 58--64: the dual solve, when configured.\<close>

definition dual_phase ::
  "('w, 'm, 'i) adaptivity \<Rightarrow> parameters \<Rightarrow> ('w, 'm, 'i) solver_state \<Rightarrow> ('w, 'm, 'i) solver_state" where
  "dual_phase c p s =
     (if p_solve_dual p then
        (let s1 = say [Begin ''Solving dual problem'', SolveDual] s in
         say [End] (s1\<lparr>problem := c_solve_dual c (problem s1)\<rparr>))
      else say [Info ''Not solving dual problem''] s)"

text \<open>Lines 66--73: the error estimate; the first component is the local \<open>error\<close>.\<close>

definition estimate_phase ::
  "('w, 'm, 'i) adaptivity \<Rightarrow> parameters \<Rightarrow> ('w, 'm, 'i) solver_state
    \<Rightarrow> real \<times> ('w, 'm, 'i) solver_state" where
  "estimate_phase c p s =
     (if p_estimate_error p then
        (let s1 = say [Begin ''Estimating error and computing error indicators'', EstimateError] s in
         case c_estimate_error c (problem s1) of
           ((err, ind, st, eh), w) \<Rightarrow>
             (err, say [End] (s1\<lparr>problem := w, ST := st, E_h := Some eh, indicators := Some ind\<rparr>)))
      else (0, say [Info ''Not estimating error''] s))"

text \<open>Lines 84--107: reached when the error is too large. The mesh is frozen or refined,
  then saved.\<close>

definition mesh_phase ::
  "('w, 'm, 'i) adaptivity \<Rightarrow> parameters \<Rightarrow> ('w, 'm, 'i) solver_state
    \<Rightarrow> ('w, 'm, 'i) solver_state outcome" where
  "mesh_phase c p s =
     (let s1 = say [Begin ''Checking space error estimate''] s;
          mesh_tolerance = p_w_h p * p_tolerance p
      in case E_h s1 of
           None \<Rightarrow> Raise (UnboundLocalError ''E_h'') s1
         | Some eh \<Rightarrow>
             if eh \<le> mesh_tolerance then
               (let s2 = say [InfoBlue ''Freezing current mesh: E_h = %g <= TOL_h = %g'' [eh, mesh_tolerance]] s1;
                    refined_mesh = c_mesh c (problem s2);
                    s3 = say [End] s2
                in Continue (say [SaveMesh refined_mesh] s3))
             else
               (let s2 = say [InfoRed ''Refining mesh'' []] s1 in
                if c_convergence_test c (problem s2) \<and> \<not> c_problem_estimate_error c (problem s2) then
                  (let refined_mesh = c_refine c (c_mesh c (problem s2));
                       s3 = say [Refine (c_mesh c (problem s2))] s2;
                       s4 = say [InitMeshes refined_mesh] (s3\<lparr>problem := c_init_meshes c refined_mesh (problem s3)\<rparr>);
                       s5 = say [End] s4
                   in Continue (say [SaveMesh refined_mesh] s5))
                else
                  (case indicators s2 of
                     None \<Rightarrow> Raise (UnboundLocalError ''indicators'') s2
                   | Some ind \<Rightarrow>
                       (case c_refine_mesh c (problem s2) (c_mesh c (problem s2)) ind of
                          (refined_mesh, w) \<Rightarrow>
                            (let s3 = say [RefineMesh (c_mesh c (problem s2)) ind] (s2\<lparr>problem := w\<rparr>);
                                 s4 = say [InitMeshes refined_mesh] (s3\<lparr>problem := c_init_meshes c refined_mesh (problem s3)\<rparr>);
                                 s5 = say [End] s4
                             in Continue (say [SaveMesh refined_mesh] s5))))))"

text \<open>Lines 75--82: the error check; \<open>break\<close> leaves the loop before \<open>end()\<close>.\<close>

definition check_phase ::
  "('w, 'm, 'i) adaptivity \<Rightarrow> parameters \<Rightarrow> real \<Rightarrow> ('w, 'm, 'i) solver_state
    \<Rightarrow> ('w, 'm, 'i) solver_state outcome" where
  "check_phase c p err s =
     (let s1 = say [Begin ''Checking error estimate''] s in
      if err \<le> p_tolerance p then
        Break (say [InfoGreen ''Adaptive solver converged: error = %g <= TOL = %g'' [err, p_tolerance p]] s1)
      else
        mesh_phase c p
          (say [InfoRed ''Error too large, need to refine: error = %g > TOL = %g'' [err, p_tolerance p], End] s1))"

text \<open>The state and the value of \<open>error\<close> with which an iteration started in \<open>s\<close> arrives
  at the error check; \<open>Inl\<close> when the primal solve raised before.\<close>

definition reach_check ::
  "('w, 'm, 'i) adaptivity \<Rightarrow> parameters \<Rightarrow> ('w, 'm, 'i) solver_state
    \<Rightarrow> error \<times> ('w, 'm, 'i) solver_state + real \<times> ('w, 'm, 'i) solver_state" where
  "reach_check c p s =
     (case primal_phase c p s of
        Inl es \<Rightarrow> Inl es
      | Inr s1 \<Rightarrow> Inr (estimate_phase c p (dual_phase c p s1)))"

text \<open>One pass through the body of \<open>while True\<close> (lines 48--107).\<close>

definition adaptive_iteration ::
  "('w, 'm, 'i) adaptivity \<Rightarrow> parameters \<Rightarrow> ('w, 'm, 'i) solver_state
    \<Rightarrow> ('w, 'm, 'i) solver_state outcome" where
  "adaptive_iteration c p s =
     (case reach_check c p s of
        Inl (e, s1) \<Rightarrow> Raise e s1
      | Inr (err, s1) \<Rightarrow> check_phase c p err s1)"

text \<open>The loop has no bound of its own, so it is a partial function: \<open>None\<close> is a run that
  never leaves the loop. After the loop the elapsed time is reported (the clock is not
  modelled) and \<open>goal_functional\<close> is returned.\<close>

partial_function (option) adaptive_loop ::
  "('w, 'm, 'i) adaptivity \<Rightarrow> parameters \<Rightarrow> ('w, 'm, 'i) solver_state
    \<Rightarrow> ((error + real option) \<times> ('w, 'm, 'i) solver_state) option" where
  "adaptive_loop c p s =
     (case adaptive_iteration c p s of
        Continue s' \<Rightarrow> adaptive_loop c p s'
      | Break s' \<Rightarrow> Some (Inr (goal_functional s'), say [InfoBlue ''Solution computed in %g seconds.'' []] s')
      | Raise e s' \<Rightarrow> Some (Inl e, s'))"

definition initial_solver_state :: "'w \<Rightarrow> ('w, 'm, 'i) solver_state" where
  "initial_solver_state w =
     \<lparr>problem = w, trace = [], ST = 1, goal_functional = None, E_h = None, indicators = None\<rparr>"

definition FSISolver_solve ::
  "('w, 'm, 'i) adaptivity \<Rightarrow> parameters \<Rightarrow> 'w
    \<Rightarrow> ((error + real option) \<times> ('w, 'm, 'i) solver_state) option" where
  "FSISolver_solve c p w = adaptive_loop c p (initial_solver_state w)"

text \<open>Selectors on the trace.\<close>

fun is_refinement :: "('m, 'i) event \<Rightarrow> bool" where
  "is_refinement (Refine m) = True"
| "is_refinement (RefineMesh m i) = True"
| "is_refinement e = False"

fun is_mesh_change :: "('m, 'i) event \<Rightarrow> bool" where
  "is_mesh_change (Refine m) = True"
| "is_mesh_change (RefineMesh m i) = True"
| "is_mesh_change (InitMeshes m) = True"
| "is_mesh_change (SaveMesh m) = True"
| "is_mesh_change e = False"

fun is_init_meshes :: "('m, 'i) event \<Rightarrow> bool" where
  "is_init_meshes (InitMeshes m) = True"
| "is_init_meshes e = False"

fun is_primal_solve :: "('m, 'i) event \<Rightarrow> bool" where
  "is_primal_solve (SolvePrimal st) = True"
| "is_primal_solve e = False"

text \<open>The events an iteration (or a run) added to the trace it started with.\<close>

definition new_events ::
  "('w, 'm, 'i) solver_state \<Rightarrow> ('w, 'm, 'i) solver_state \<Rightarrow> ('m, 'i) event list" where
  "new_events s s' = drop (length (trace s)) (trace s')"

section \<open>The primal solver: \<open>solve_primal\<close> (primalsolver.py)\<close>

text \<open>
  A DOLFIN function is embedded as the vector of its degrees of freedom. \<open>y.axpy(a, x)\<close>
  adds \<open>a * x\<close> to \<open>y\<close> in place and raises an error when the two vectors differ in size;
  \<open>norm(v)\<close> is the Euclidean norm. The arithmetic inside these two DOLFIN operations is
  exact here.
\<close>

type_synonym vec = "real list"

type_synonym solution = "vec \<times> vec \<times> vec \<times> vec \<times> vec"

definition axpy :: "real \<Rightarrow> vec \<Rightarrow> vec \<Rightarrow> error + vec" where
  "axpy a x y =
     (if length x = length y then Inr (map2 (\<lambda>yi xi. yi + a * xi) y x)
      else Inl (DolfinError ''axpy''))"

definition norm_l2 :: "vec \<Rightarrow> real" where
  "norm_l2 v = sqrt (\<Sum>x\<leftarrow>v. x * x)"

text \<open>
  The floats of the time stepping are IEEE doubles: an arithmetic operation returns the
  double nearest to its exact result, a tie going to the even significand.
  \<open>binary_exponent x\<close> is the \<open>e\<close> with \<open>2 ^ e \<le> x < 2 ^ (e + 1)\<close>, for \<open>x > 0\<close>, and a double
  with that exponent is a multiple of \<open>2 ^ (e - 52)\<close>. The range of the exponent is not
  bounded here: there is no overflow and there are no subnormal numbers. \<open>DOLFIN_EPS\<close> is
  the literal \<open>3.0e-16\<close> of DOLFIN's constants.
\<close>

definition round_half_even :: "real \<Rightarrow> int" where
  "round_half_even x =
     (let n = \<lfloor>x\<rfloor> in
      if x - of_int n < 1/2 then n
      else if 1/2 < x - of_int n then n + 1
      else if even n then n else n + 1)"

definition binary_exponent :: "real \<Rightarrow> int" where
  "binary_exponent x =
     (if 1 \<le> x then int (floorlog 2 (nat \<lfloor>x\<rfloor>)) - 1
      else - int (floorlog 2 (nat (\<lceil>1 / x\<rceil> - 1))))"

definition times_power_of_two :: "real \<Rightarrow> int \<Rightarrow> real" where
  "times_power_of_two x e = (if 0 \<le> e then x * 2 ^ nat e else x / 2 ^ nat (- e))"

definition round_double :: "real \<Rightarrow> real" where
  "round_double x =
     (if x = 0 then 0
      else (let e = binary_exponent \<bar>x\<bar> - 52
            in sgn x * times_power_of_two (of_int (round_half_even (times_power_of_two \<bar>x\<bar> (- e)))) e))"

definition fadd :: "real \<Rightarrow> real \<Rightarrow> real" where
  "fadd x y = round_double (x + y)"

definition fsub :: "real \<Rightarrow> real \<Rightarrow> real" where
  "fsub x y = round_double (x - y)"

definition fmul :: "real \<Rightarrow> real \<Rightarrow> real" where
  "fmul x y = round_double (x * y)"

definition DOLFIN_EPS :: real where
  "DOLFIN_EPS = round_double (3 / 10 ^ 16)"

text \<open>What the primal solver reports and persists. Progress banners without data
  (\<open>begin\<close>, \<open>end\<close>, \<open>info("")\<close>) are not recorded.\<close>

datatype pevent =
    TimeStepInfo real real real        \<comment> \<open>\<open>info_blue("  * t = %g (T = %g, dt = %g)" % (t1, T, dt))\<close>\<close>
  | SaveSolution solution              \<comment> \<open>\<open>_save_solution(U, files)\<close>\<close>
  | WritePrimalData solution real      \<comment> \<open>\<open>write_primal_data(U, t, time_series)\<close>\<close>
  | PlotSolution vec vec vec           \<comment> \<open>\<open>_plot_solution(u_F, U_S0, U_M)\<close>\<close>
  | ConvergedInfo real real nat        \<comment> \<open>\<open>info_green\<close>: increment, tolerance, \<open>iter + 1\<close>\<close>
  | IncrementInfo real real nat        \<comment> \<open>\<open>info_red\<close>: increment, tolerance, \<open>iter + 1\<close>\<close>
  | SaveNoFSIIter real nat             \<comment> \<open>\<open>save_no_FSI_iter(t1, iter + 1, parameters)\<close>\<close>
  | SaveGoalFunctional real real real  \<comment> \<open>\<open>save_goal_functional(t1, goal_functional, integrated_goal_functional, parameters)\<close>\<close>
  | SaveDofs nat nat                   \<comment> \<open>\<open>save_dofs(num_dofs_FSM, timestep_counter, parameters)\<close>\<close>
  | SaveGoalFunctionalFinal real real  \<comment> \<open>\<open>save_goal_functional_final(goal_functional, integrated_goal_functional, parameters)\<close>\<close>

text \<open>
  Lines 53--55 construct the three subproblems, each with one argument, the problem. A
  call of a class passes its arguments to \<open>__init__\<close>, and Python raises \<open>TypeError\<close> when
  their number is not the number of the parameters of \<open>__init__\<close> (none here has a default
  value). subproblems.py declares \<open>FluidProblem.__init__(self, problem)\<close> (line 26),
  \<open>StructureProblem.__init__(self, problem, parameters)\<close> (line 152) and
  \<open>MeshProblem.__init__(self, problem, parameters)\<close> (line 278). The counts in the error
  include \<open>self\<close>. What the bodies of the constructors do is left to the collaborators
  below.
\<close>

datatype subproblem_class = FluidProblem | StructureProblem | MeshProblem

fun init_parameters :: "subproblem_class \<Rightarrow> string list" where
  "init_parameters FluidProblem = [''problem'']"
| "init_parameters StructureProblem = [''problem'', ''parameters'']"
| "init_parameters MeshProblem = [''problem'', ''parameters'']"

definition construct :: "subproblem_class \<Rightarrow> string list \<Rightarrow> error + unit" where
  "construct cls args =
     (if length args = length (init_parameters cls) then Inr ()
      else Inl (TypeError (Suc (length (init_parameters cls))) (Suc (length args))))"

definition construct_subproblems :: "error + unit" where
  "construct_subproblems =
     (case construct FluidProblem [''problem''] of
        Inl e \<Rightarrow> Inl e
      | Inr F \<Rightarrow>
          (case construct StructureProblem [''problem''] of
             Inl e \<Rightarrow> Inl e
           | Inr S \<Rightarrow> construct MeshProblem [''problem'']))"

text \<open>
  The collaborators of the primal solver: the methods of the three subproblems \<open>F\<close>, \<open>S\<close>,
  \<open>M\<close>, the problem's own methods and the helpers of the adaptivity module. The world holds
  the problem and the three subproblem objects.
\<close>

record ('w, 'x) subproblems =
  end_time :: "'w \<Rightarrow> real"
  initial_timestep :: "'w \<Rightarrow> parameters \<Rightarrow> real"
  compute_itertol :: "'w \<Rightarrow> parameters \<Rightarrow> real \<Rightarrow> real \<Rightarrow> real"
  F_step :: "real \<Rightarrow> 'w \<Rightarrow> (vec \<times> vec) \<times> 'w"
  F_compute_fluid_stress :: "vec \<Rightarrow> vec \<Rightarrow> vec \<Rightarrow> 'w \<Rightarrow> 'x \<times> 'w"
  S_update_fluid_stress :: "'x \<Rightarrow> 'w \<Rightarrow> 'w"
  S_step :: "real \<Rightarrow> 'w \<Rightarrow> (vec \<times> vec) \<times> 'w"
  M_update_structure_displacement :: "vec \<Rightarrow> 'w \<Rightarrow> 'w"
  M_step :: "real \<Rightarrow> 'w \<Rightarrow> vec \<times> 'w"
  F_update_mesh_displacement :: "vec \<Rightarrow> real \<Rightarrow> nat \<Rightarrow> 'w \<Rightarrow> 'w"
  evaluate_functional :: "'w \<Rightarrow> vec \<Rightarrow> vec \<Rightarrow> vec \<Rightarrow> vec \<Rightarrow> vec \<Rightarrow> real \<Rightarrow> real \<Rightarrow> real"
  extract_solution :: "'w \<Rightarrow> solution"
  extract_num_dofs :: "'w \<Rightarrow> nat"
  F_update :: "real \<Rightarrow> 'w \<Rightarrow> 'w"
  S_update :: "'w \<Rightarrow> 'w"
  M_update :: "real \<Rightarrow> 'w \<Rightarrow> vec \<times> 'w"
  F_update_extra :: "'w \<Rightarrow> 'w"
  compute_time_residual :: "'w \<Rightarrow> real \<Rightarrow> real \<Rightarrow> real"
  compute_time_step :: "'w \<Rightarrow> parameters \<Rightarrow> real \<Rightarrow> real \<Rightarrow> real \<Rightarrow> real \<Rightarrow> real \<Rightarrow> real \<times> bool"
  V_S_dim :: "'w \<Rightarrow> nat"

text \<open>The locals of \<open>solve_primal\<close> (prefixed \<open>s_\<close>), the world and the trace. \<open>s_iter\<close> is
  the loop variable \<open>iter\<close>; it is only read inside the loop that assigns it.\<close>

record 'w primal_state =
  s_world :: 'w
  s_log :: "pevent list"
  s_t0 :: real
  s_t1 :: real
  s_dt :: real
  s_at_end :: bool
  s_integrated_goal_functional :: real
  s_old_goal_functional :: real
  s_goal_functional :: "real option"
  s_U_S0 :: vec
  s_U_M :: vec
  s_iter :: nat
  s_timestep_counter :: nat
  s_num_dofs_FSM :: nat

definition record_events :: "pevent list \<Rightarrow> 'w primal_state \<Rightarrow> 'w primal_state" where
  "record_events evs s = s\<lparr>s_log := s_log s @ evs\<rparr>"

text \<open>Lines 99--136: one pass of the fixed point iteration, up to the convergence check. It
  returns the increment and the fields \<open>u_F, p_F, U_S, P_S\<close> of this pass, or the error of
  \<open>axpy\<close>.\<close>

definition fsi_pass ::
  "('w, 'x) subproblems \<Rightarrow> parameters \<Rightarrow> 'w primal_state
    \<Rightarrow> error \<times> 'w primal_state + (real \<times> vec \<times> vec \<times> vec \<times> vec) \<times> 'w primal_state" where
  "fsi_pass c p s =
     (case F_step c (s_dt s) (s_world s) of ((u_F, p_F), w1) \<Rightarrow>
      case F_compute_fluid_stress c u_F p_F (s_U_M s) w1 of (Sigma_F, w2) \<Rightarrow>
      case S_step c (s_dt s) (S_update_fluid_stress c Sigma_F w2) of ((U_S, P_S), w4) \<Rightarrow>
      case M_step c (s_dt s) (M_update_structure_displacement c U_S w4) of (U_M, w6) \<Rightarrow>
        (let w7 = F_update_mesh_displacement c U_M (s_dt s) (p_num_smoothings p) w6;
             s1 = s\<lparr>s_world := w7, s_U_M := U_M\<rparr>
         in case axpy (-1) U_S (s_U_S0 s1) of
              Inl e \<Rightarrow> Inl (e, s1)
            | Inr d \<Rightarrow>
                (let increment = norm_l2 d;
                     s2 = s1\<lparr>s_U_S0 := U_S\<rparr>;
                     s3 = (if p_plot_solution p then record_events [PlotSolution u_F U_S U_M] s2 else s2)
                 in Inr ((increment, u_F, p_F, U_S, P_S), s3))))"

text \<open>Lines 138--157: the branch taken on convergence.\<close>

definition converged ::
  "('w, 'x) subproblems \<Rightarrow> real \<Rightarrow> real \<Rightarrow> nat \<Rightarrow> vec \<times> vec \<times> vec \<times> vec
    \<Rightarrow> 'w primal_state \<Rightarrow> 'w primal_state" where
  "converged c increment itertol i flds s =
     (case flds of (u_F, p_F, U_S, P_S) \<Rightarrow>
        (let s1 = record_events [ConvergedInfo increment itertol (i + 1), SaveNoFSIIter (s_t1 s) (i + 1)] s;
             goal = evaluate_functional c (s_world s1) u_F p_F U_S P_S (s_U_M s1) (s_t0 s1) (s_t1 s1);
             integrated = fadd (s_integrated_goal_functional s1)
                            (fmul (fmul 0.5 (s_dt s1)) (fadd (s_old_goal_functional s1) goal))
         in record_events [SaveGoalFunctional (s_t1 s1) goal integrated]
              (s1\<lparr>s_goal_functional := Some goal,
                   s_integrated_goal_functional := integrated,
                   s_old_goal_functional := goal\<rparr>)))"

text \<open>Line 94, \<open>for iter in range(maxiter)\<close>, over the list of the values of \<open>iter\<close>.
  \<open>Break\<close> is the \<open>break\<close> on convergence, \<open>Raise\<close> the \<open>RuntimeError\<close> of line 161 or the
  error of a pass, and \<open>Continue\<close> a loop that came to the end of its range.\<close>

fun fsi_loop ::
  "('w, 'x) subproblems \<Rightarrow> parameters \<Rightarrow> real \<Rightarrow> nat list \<Rightarrow> 'w primal_state
    \<Rightarrow> 'w primal_state outcome" where
  "fsi_loop c p itertol [] s = Continue s"
| "fsi_loop c p itertol (i # rest) s =
     (case fsi_pass c p (s\<lparr>s_iter := i\<rparr>) of
        Inl (e, s1) \<Rightarrow> Raise e s1
      | Inr ((increment, flds), s1) \<Rightarrow>
          if increment < itertol then Break (converged c increment itertol i flds s1)
          else if int i = p_maximum_iterations p - 1 then
            Raise (FSI_not_converged (p_maximum_iterations p)) s1
          else fsi_loop c p itertol rest (record_events [IncrementInfo increment itertol (i + 1)] s1))"

definition fsi_iteration ::
  "('w, 'x) subproblems \<Rightarrow> parameters \<Rightarrow> real \<Rightarrow> 'w primal_state \<Rightarrow> 'w primal_state outcome" where
  "fsi_iteration c p itertol s = fsi_loop c p itertol [0..<nat (p_maximum_iterations p)] s"

text \<open>Lines 168--182: what follows the fixed point iteration in a time step.\<close>

definition end_of_step ::
  "('w, 'x) subproblems \<Rightarrow> parameters \<Rightarrow> 'w primal_state \<Rightarrow> 'w primal_state" where
  "end_of_step c p s =
     (let U = extract_solution c (s_world s);
          s1 = (if p_save_solution p then record_events [SaveSolution U] s else s);
          s2 = record_events [WritePrimalData U (s_t1 s1)] s1;
          w1 = F_update c (s_t1 s2) (s_world s2);
          w2 = S_update c w1;
          w3 = snd (M_update c (s_t1 s2) w2)
      in s2\<lparr>s_world := F_update_extra c w3, s_timestep_counter := s_timestep_counter s2 + 1\<rparr>)"

text \<open>Lines 84--182: one time step, from the progress line to \<open>F.update_extra()\<close>.\<close>

definition time_step ::
  "('w, 'x) subproblems \<Rightarrow> parameters \<Rightarrow> real \<Rightarrow> 'w primal_state
    \<Rightarrow> error \<times> 'w primal_state + 'w primal_state" where
  "time_step c p T s =
     (let s1 = record_events [TimeStepInfo (s_t1 s) T (s_dt s)] s;
          itertol = compute_itertol c (s_world s1) p (s_dt s1) (s_t1 s1)
      in case fsi_iteration c p itertol s1 of
           Raise e s2 \<Rightarrow> Inl (e, s2)
         | Break s2 \<Rightarrow> Inr (end_of_step c p s2)
         | Continue s2 \<Rightarrow> Inr (end_of_step c p s2))"

text \<open>Lines 192--204: the next time interval.\<close>

definition next_interval ::
  "('w, 'x) subproblems \<Rightarrow> parameters \<Rightarrow> real \<Rightarrow> real \<Rightarrow> 'w primal_state \<Rightarrow> 'w primal_state" where
  "next_interval c p T st s =
     (if p_uniform_timestep p then
        (let t0 = s_t1 s;
             t1 = min (fadd (s_t1 s) (s_dt s)) T;
             dt = fsub t1 t0
         in s\<lparr>s_t0 := t0, s_t1 := t1, s_dt := dt, s_at_end := (fsub T DOLFIN_EPS < t1)\<rparr>)
      else
        (let Rk = compute_time_residual c (s_world s) (s_t0 s) (s_t1 s) in
         case compute_time_step c (s_world s) p Rk st (s_dt s) (s_t1 s) T of
           (dt, at_end) \<Rightarrow>
             s\<lparr>s_t0 := s_t1 s, s_t1 := fadd (s_t1 s) dt, s_dt := dt, s_at_end := at_end\<rparr>))"

text \<open>Lines 185--190 and 206--214: leaving the loop and returning \<open>goal_functional\<close>, which
  is unassigned when no time step converged.\<close>

definition finish :: "'w primal_state \<Rightarrow> (error + real) \<times> 'w primal_state" where
  "finish s =
     (let s1 = record_events [SaveDofs (s_num_dofs_FSM s) (s_timestep_counter s)] s in
      case s_goal_functional s1 of
        None \<Rightarrow> (Inl (UnboundLocalError ''goal_functional''), s1)
      | Some goal \<Rightarrow>
          (Inr goal, record_events [SaveGoalFunctionalFinal goal (s_integrated_goal_functional s1)] s1))"

text \<open>The time-stepping loop (line 82, \<open>while True\<close>); \<open>None\<close> is a loop that never ends.\<close>

partial_function (option) time_loop ::
  "('w, 'x) subproblems \<Rightarrow> parameters \<Rightarrow> real \<Rightarrow> real \<Rightarrow> 'w primal_state
    \<Rightarrow> ((error + real) \<times> 'w primal_state) option" where
  "time_loop c p T st s =
     (case time_step c p T s of
        Inl (e, s1) \<Rightarrow> Some (Inl e, s1)
      | Inr s1 \<Rightarrow>
          if s_at_end s1 then Some (finish s1)
          else time_loop c p T st (next_interval c p T st s1))"

text \<open>Lines 57--79: the state in which the loop is entered, once the three subproblems
  are there. \<open>U_S0\<close> is a fresh function on the structure mesh, the zero vector.\<close>

definition initial_primal_state ::
  "('w, 'x) subproblems \<Rightarrow> parameters \<Rightarrow> 'w \<Rightarrow> 'w primal_state" where
  "initial_primal_state c p w =
     (let dt = initial_timestep c w p;
          num_dofs_FSM = extract_num_dofs c w
      in case M_update c 0 w of
           (U_M, w1) \<Rightarrow>
             (let U = extract_solution c w1 in
              \<lparr>s_world = w1,
               s_log = (if p_save_solution p then [SaveSolution U] else []) @ [WritePrimalData U 0],
               s_t0 = 0, s_t1 = dt, s_dt = dt, s_at_end = False,
               s_integrated_goal_functional = 0, s_old_goal_functional = 0,
               s_goal_functional = None,
               s_U_S0 = replicate (V_S_dim c w1) 0, s_U_M = U_M,
               s_iter = 0, s_timestep_counter = 0, s_num_dofs_FSM = num_dofs_FSM\<rparr>))"

text \<open>\<open>solve_primal\<close> (lines 19--214). Up to line 52 it reads the parameters and creates the
  files and the time series; then it constructs the subproblems, and an error there leaves
  the function with the world as it was and nothing reported. The result is the value
  returned or the error raised, with the world and the trace.\<close>

definition solve_primal ::
  "('w, 'x) subproblems \<Rightarrow> parameters \<Rightarrow> 'w \<Rightarrow> real
    \<Rightarrow> ((error + real) \<times> 'w \<times> pevent list) option" where
  "solve_primal c p w st =
     (case construct_subproblems of
        Inl e \<Rightarrow> Some (Inl e, w, [])
      | Inr u \<Rightarrow>
          map_option (\<lambda>(r, s). (r, s_world s, s_log s))
            (time_loop c p (end_time c w) st (initial_primal_state c p w)))"

text \<open>The state after \<open>k\<close> passes of the fixed point iteration, were none of them to
  converge or to raise, and the result of the next pass.\<close>

fun pass_state ::
  "('w, 'x) subproblems \<Rightarrow> parameters \<Rightarrow> real \<Rightarrow> nat \<Rightarrow> nat \<Rightarrow> 'w primal_state \<Rightarrow> 'w primal_state" where
  "pass_state c p itertol i 0 s = s"
| "pass_state c p itertol i (Suc k) s =
     (case fsi_pass c p (s\<lparr>s_iter := i\<rparr>) of
        Inl (e, s1) \<Rightarrow> s1
      | Inr ((increment, flds), s1) \<Rightarrow>
          pass_state c p itertol (Suc i) k (record_events [IncrementInfo increment itertol (i + 1)] s1))"

definition next_pass ::
  "('w, 'x) subproblems \<Rightarrow> parameters \<Rightarrow> real \<Rightarrow> nat \<Rightarrow> 'w primal_state
    \<Rightarrow> error \<times> 'w primal_state + (real \<times> vec \<times> vec \<times> vec \<times> vec) \<times> 'w primal_state" where
  "next_pass c p itertol k s = fsi_pass c p ((pass_state c p itertol 0 k s)\<lparr>s_iter := k\<rparr>)"

text \<open>The state a pass ends in, and a pass that ends without error and with an increment
  that is not below the tolerance.\<close>

fun after_pass :: "error \<times> 's + 'r \<times> 's \<Rightarrow> 's" where
  "after_pass (Inl (e, s)) = s"
| "after_pass (Inr (r, s)) = s"

fun fails_to_converge ::
  "real \<Rightarrow> error \<times> 'w primal_state + (real \<times> vec \<times> vec \<times> vec \<times> vec) \<times> 'w primal_state \<Rightarrow> bool" where
  "fails_to_converge itertol (Inl es) = False"
| "fails_to_converge itertol (Inr ((increment, flds), s1)) = (\<not> increment < itertol)"

text \<open>The four locals that make the time step record.\<close>

definition times :: "'w primal_state \<Rightarrow> real \<times> real \<times> real \<times> bool" where
  "times s = (s_t0 s, s_t1 s, s_dt s, s_at_end s)"

section \<open>The fluid subproblem: mesh displacement (subproblems.py)\<close>

text \<open>
  A mesh is embedded by its array of vertex coordinates, one row per vertex; the number of
  vertices is the number of rows. \<open>coordinates()\<close> returns a view of the array, so writing
  to \<open>x1\<close> writes to the mesh \<open>omega_F1\<close>, and \<open>x1\<close> shows what \<open>smooth\<close> did to it. An index
  out of range raises \<open>IndexError\<close>. \<open>self.w\<close> exists once \<open>mesh_velocity\<close> has been
  called. DOLFIN's \<open>Mesh.smooth(n)\<close> makes \<open>n\<close> passes of its smoothing step, which is a
  parameter here.
\<close>

datatype fluid_event =
    Smooth nat     \<comment> \<open>\<open>self.omega_F1.smooth(num_smoothings)\<close>\<close>
  | Reassemble     \<comment> \<open>\<open>self.solver.reassemble()\<close>\<close>

record fluid_problem =
  Omega_F :: "real list list"
  omega_F0 :: "real list list"
  omega_F1 :: "real list list"
  geometry_dim :: nat
  mesh_velocity_w :: "real list option"
  fluid_calls :: "fluid_event list"

text \<open>\<open>for i in range(n)\<close> with a body that may raise.\<close>

primrec for_range :: "nat list \<Rightarrow> (nat \<Rightarrow> 'a \<Rightarrow> error + 'a) \<Rightarrow> 'a \<Rightarrow> error + 'a" where
  "for_range [] body a = Inr a"
| "for_range (i # rest) body a =
     (case body i a of Inl e \<Rightarrow> Inl e | Inr a' \<Rightarrow> for_range rest body a')"

text \<open>Line 124: \<open>x1[i][j] = X[i][j] + dofs[j*N + i]\<close>.\<close>

definition set_x1 ::
  "real list list \<Rightarrow> real list \<Rightarrow> nat \<Rightarrow> nat \<Rightarrow> nat \<Rightarrow> real list list \<Rightarrow> error + real list list" where
  "set_x1 X dofs N i j x1 =
     (if i < length x1 \<and> j < length (x1 ! i) \<and> i < length X \<and> j < length (X ! i)
         \<and> j * N + i < length dofs
      then Inr (x1[i := (x1 ! i)[j := X ! i ! j + dofs ! (j * N + i)]])
      else Inl IndexError)"

text \<open>Line 133: \<open>wx[j*N + i] = (x1[i][j] - x0[i][j]) / dt\<close>.\<close>

definition set_wx ::
  "real list list \<Rightarrow> real list list \<Rightarrow> real \<Rightarrow> nat \<Rightarrow> nat \<Rightarrow> nat \<Rightarrow> real list \<Rightarrow> error + real list" where
  "set_wx x1 x0 dt N i j wx =
     (if i < length x1 \<and> j < length (x1 ! i) \<and> i < length x0 \<and> j < length (x0 ! i)
         \<and> j * N + i < length wx
      then Inr (wx[j * N + i := (x1 ! i ! j - x0 ! i ! j) / dt])
      else Inl IndexError)"

definition smooth :: "(real list list \<Rightarrow> real list list) \<Rightarrow> nat \<Rightarrow> real list list \<Rightarrow> real list list" where
  "smooth smoothing_pass n x = (smoothing_pass ^^ n) x"

text \<open>Lines 111--139, \<open>FluidProblem.update_mesh_displacement\<close>.\<close>

definition update_mesh_displacement ::
  "(real list list \<Rightarrow> real list list) \<Rightarrow> fluid_problem \<Rightarrow> real list \<Rightarrow> real \<Rightarrow> nat
    \<Rightarrow> error + fluid_problem" where
  "update_mesh_displacement smoothing_pass F U_M dt num_smoothings =
     (let X = Omega_F F;
          x0 = omega_F0 F;
          dofs = U_M;
          gdim = geometry_dim F;
          N = length (omega_F1 F)
      in case for_range [0..<N] (\<lambda>i. for_range [0..<gdim] (\<lambda>j. set_x1 X dofs N i j)) (omega_F1 F) of
           Inl e \<Rightarrow> Inl e
         | Inr x1 \<Rightarrow>
             (let x1s = smooth smoothing_pass num_smoothings x1 in
              case mesh_velocity_w F of
                None \<Rightarrow> Inl (AttributeError ''w'')
              | Some wv \<Rightarrow>
                  (case for_range [0..<N] (\<lambda>i. for_range [0..<gdim] (\<lambda>j. set_wx x1s x0 dt N i j)) wv of
                     Inl e \<Rightarrow> Inl e
                   | Inr wx \<Rightarrow>
                       Inr (F\<lparr>omega_F1 := x1s, mesh_velocity_w := Some wx,
                              fluid_calls := fluid_calls F @ [Smooth num_smoothings, Reassemble]\<rparr>))))"

text \<open>Lines 141--144, \<open>FluidProblem.update_extra\<close>: a slice assignment between two arrays,
  which need the same shape.\<close>

definition update_extra :: "fluid_problem \<Rightarrow> error + fluid_problem" where
  "update_extra F =
     (if map length (omega_F0 F) = map length (omega_F1 F)
      then Inr (F\<lparr>omega_F0 := omega_F1 F\<rparr>)
      else Inl ValueError)"

text \<open>The array of reference coordinates plus displacement.\<close>

definition displaced :: "real list list \<Rightarrow> real list \<Rightarrow> nat \<Rightarrow> nat \<Rightarrow> real list list" where
  "displaced X dofs N gdim = map (\<lambda>i. map (\<lambda>j. X ! i ! j + dofs ! (j * N + i)) [0..<gdim]) [0..<N]"

text \<open>An array of \<open>N\<close> rows of \<open>gdim\<close> entries.\<close>

definition has_shape :: "nat \<Rightarrow> nat \<Rightarrow> real list list \<Rightarrow> bool" where
  "has_shape N gdim x = (length x = N \<and> list_all (\<lambda>row. length row = gdim) x)"

text \<open>The invariants of the two loop nests: after the rows before \<open>i\<close> and the first \<open>j\<close>
  entries of row \<open>i\<close>, these entries hold their new values and all others their old ones.\<close>

definition x1_inv ::
  "real list list \<Rightarrow> real list \<Rightarrow> nat \<Rightarrow> nat \<Rightarrow> real list list \<Rightarrow> nat \<Rightarrow> nat \<Rightarrow> real list list \<Rightarrow> bool" where
  "x1_inv X dofs N d x1 i j a =
     (has_shape N d a \<and>
      (\<forall>i' < N. \<forall>j' < d. a ! i' ! j' =
          (if i' < i \<or> (i' = i \<and> j' < j) then X ! i' ! j' + dofs ! (j' * N + i') else x1 ! i' ! j')))"

definition wx_inv ::
  "real list list \<Rightarrow> real list list \<Rightarrow> real \<Rightarrow> nat \<Rightarrow> nat \<Rightarrow> real list \<Rightarrow> nat \<Rightarrow> nat \<Rightarrow> real list \<Rightarrow> bool" where
  "wx_inv x1 x0 dt N d wv i j b =
     (length b = length wv \<and>
      (\<forall>k. d * N \<le> k \<and> k < length wv \<longrightarrow> b ! k = wv ! k) \<and>
      (\<forall>i' < N. \<forall>j' < d. b ! (j' * N + i') =
          (if i' < i \<or> (i' = i \<and> j' < j) then (x1 ! i' ! j' - x0 ! i' ! j') / dt
           else wv ! (j' * N + i'))))"

section \<open>Concrete collaborators for the worked runs\<close>

text \<open>An adaptive loop over a world that is the number of the current mesh: the primal solver
  returns 7, the estimator returns the error \<open>err\<close> and the spatial error \<open>eh\<close>, refinement
  gives the next mesh.\<close>

definition stub_adaptivity :: "real \<Rightarrow> real \<Rightarrow> (nat, nat, unit) adaptivity" where
  "stub_adaptivity err eh =
     \<lparr>c_solve_primal = (\<lambda>w st. (Inr 7, w)),
      c_solve_dual = (\<lambda>w. w),
      c_estimate_error = (\<lambda>w. ((err, (), 2, eh), w)),
      c_mesh = (\<lambda>w. w),
      c_convergence_test = (\<lambda>w. False),
      c_problem_estimate_error = (\<lambda>w. True),
      c_refine = Suc,
      c_refine_mesh = (\<lambda>w m i. (Suc m, w)),
      c_init_meshes = (\<lambda>m w. m)\<rparr>"

definition stub_parameters :: "real \<Rightarrow> bool \<Rightarrow> bool \<Rightarrow> parameters" where
  "stub_parameters tol sp ee =
     \<lparr>p_tolerance = tol, p_w_h = 1/2, p_w_k = 1/4, p_w_c = 1/4,
      p_solve_primal = sp, p_solve_dual = False, p_estimate_error = ee,
      p_save_solution = False, p_plot_solution = False, p_uniform_timestep = True,
      p_maximum_iterations = 3, p_num_smoothings = 1\<rparr>"

text \<open>Stub subproblems over a world that counts the structure solves: the \<open>n\<close>-th structure
  solve returns the displacement \<open>us n\<close>, every other solver returns a fixed value, the
  goal functional is the constant \<open>v\<close>, and the tolerance of the fixed point iteration
  is 1/2.\<close>

definition stub_subproblems :: "(nat \<Rightarrow> vec) \<Rightarrow> real \<Rightarrow> real \<Rightarrow> real \<Rightarrow> (nat, unit) subproblems" where
  "stub_subproblems us T dt v =
     \<lparr>end_time = (\<lambda>w. T),
      initial_timestep = (\<lambda>w p. dt),
      compute_itertol = (\<lambda>w p dt t1. 1/2),
      F_step = (\<lambda>dt w. (([0], [0]), w)),
      F_compute_fluid_stress = (\<lambda>u_F p_F U_M w. ((), w)),
      S_update_fluid_stress = (\<lambda>x w. w),
      S_step = (\<lambda>dt w. ((us w, [0]), Suc w)),
      M_update_structure_displacement = (\<lambda>U_S w. w),
      M_step = (\<lambda>dt w. ([0], w)),
      F_update_mesh_displacement = (\<lambda>U_M dt n w. w),
      evaluate_functional = (\<lambda>w u_F p_F U_S P_S U_M t0 t1. v),
      extract_solution = (\<lambda>w. ([0], [0], us w, [0], [0])),
      extract_num_dofs = (\<lambda>w. 5),
      F_update = (\<lambda>t w. w),
      S_update = (\<lambda>w. w),
      M_update = (\<lambda>t w. ([0], w)),
      F_update_extra = (\<lambda>w. w),
      compute_time_residual = (\<lambda>w t0 t1. 0),
      compute_time_step = (\<lambda>w p Rk st dt t1 T. (dt, T \<le> t1 + dt)),
      V_S_dim = (\<lambda>w. 1)\<rparr>"

text \<open>A structure solver that returns \<open>u\<close> whatever it is given, and one that alternates
  between two displacements.\<close>

definition steady :: "vec \<Rightarrow> nat \<Rightarrow> vec" where
  "steady u n = u"

definition oscillating :: "nat \<Rightarrow> vec" where
  "oscillating n = (if even n then [1] else [0])"

text \<open>A state in which the time-stepping loop enters a time step over these stubs: the
  locals as lines 72--79 set them, with the initial time step \<open>dt\<close> and an empty trace. The
  snapshot \<open>U_S0\<close> is \<open>u0\<close>: line 65 makes it the zero vector for the first time step, and
  later it is the last structure displacement. \<open>at_times\<close> gives the state another time
  step record.\<close>

definition entered :: "vec \<Rightarrow> real \<Rightarrow> nat primal_state" where
  "entered u0 dt =
     \<lparr>s_world = 0, s_log = [],
      s_t0 = 0, s_t1 = dt, s_dt = dt, s_at_end = False,
      s_integrated_goal_functional = 0, s_old_goal_functional = 0,
      s_goal_functional = None,
      s_U_S0 = u0, s_U_M = [0],
      s_iter = 0, s_timestep_counter = 0, s_num_dofs_FSM = 5\<rparr>"

definition at_times :: "real \<Rightarrow> real \<Rightarrow> real \<Rightarrow> bool \<Rightarrow> nat primal_state \<Rightarrow> nat primal_state" where
  "at_times t0 t1 dt at_end s = s\<lparr>s_t0 := t0, s_t1 := t1, s_dt := dt, s_at_end := at_end\<rparr>"

text \<open>An adaptive loop whose primal solver raises the error of \<open>solve_primal\<close>.\<close>

definition raising_adaptivity :: "(nat, nat, unit) adaptivity" where
  "raising_adaptivity = (stub_adaptivity 0 0)\<lparr>c_solve_primal := (\<lambda>w st. (Inl (TypeError 3 2), w))\<rparr>"

text \<open>A fluid mesh of two vertices in the plane, at rest.\<close>

definition stub_fluid :: fluid_problem where
  "stub_fluid =
     \<lparr>Omega_F = [[0, 0], [1, 0]], omega_F0 = [[0, 0], [1, 0]], omega_F1 = [[0, 0], [1, 0]],
      geometry_dim = 2, mesh_velocity_w = Some [0, 0, 0, 0], fluid_calls = []\<rparr>"

section \<open>Properties of the adaptive loop\<close>

lemma say_simps:
  "trace (say evs s) = trace s @ evs"
  "problem (say evs s) = problem s"
  "ST (say evs s) = ST s"
  "goal_functional (say evs s) = goal_functional s"
  "E_h (say evs s) = E_h s"
  "indicators (say evs s) = indicators s"
  by (simp_all add: say_def)

lemma primal_phase_trace:
  assumes "primal_phase c p s = Inr s1"
  shows "\<exists>evs. trace s1 = trace s @ evs \<and> filter is_mesh_change evs = []
            \<and> length (filter is_primal_solve evs) = (if p_solve_primal p then 1 else 0)"
  using assms
  by (auto simp: primal_phase_def say_simps Let_def split: if_splits prod.splits sum.splits)

lemma dual_phase_trace:
  "\<exists>evs. trace (dual_phase c p s) = trace s @ evs \<and> filter is_mesh_change evs = []
            \<and> filter is_primal_solve evs = []"
  by (auto simp: dual_phase_def say_simps Let_def)

lemma estimate_phase_trace:
  "\<exists>evs. trace (snd (estimate_phase c p s)) = trace s @ evs \<and> filter is_mesh_change evs = []
            \<and> filter is_primal_solve evs = []"
  by (auto simp: estimate_phase_def say_simps Let_def split: prod.splits)

lemma reach_check_trace:
  assumes "reach_check c p s = Inr (err, s1)"
  shows "\<exists>evs. trace s1 = trace s @ evs \<and> filter is_mesh_change evs = []
            \<and> length (filter is_primal_solve evs) = (if p_solve_primal p then 1 else 0)"
proof -
  from assms obtain s0 where a: "primal_phase c p s = Inr s0"
    and b: "estimate_phase c p (dual_phase c p s0) = (err, s1)"
    by (auto simp: reach_check_def split: sum.splits)
  from primal_phase_trace[OF a] obtain e1 where e1: "trace s0 = trace s @ e1"
    "filter is_mesh_change e1 = []" "length (filter is_primal_solve e1) = (if p_solve_primal p then 1 else 0)"
    by blast
  from dual_phase_trace[of c p s0] obtain e2 where e2: "trace (dual_phase c p s0) = trace s0 @ e2"
    "filter is_mesh_change e2 = []" "filter is_primal_solve e2 = []" by blast
  from estimate_phase_trace[of c p "dual_phase c p s0"] b obtain e3 where e3: "trace s1 = trace (dual_phase c p s0) @ e3"
    "filter is_mesh_change e3 = []" "filter is_primal_solve e3 = []" by auto
  have "trace s1 = trace s @ (e1 @ e2 @ e3)" using e1 e2 e3 by simp
  moreover have "filter is_mesh_change (e1 @ e2 @ e3) = []" using e1 e2 e3 by simp
  moreover have "length (filter is_primal_solve (e1 @ e2 @ e3)) = (if p_solve_primal p then 1 else 0)"
    using e1 e2 e3 by simp
  ultimately show ?thesis by blast
qed

lemma reach_check_goal_functional:
  assumes "reach_check c p s = Inr (err, s1)"
  shows "goal_functional s1 =
           (if p_solve_primal p
            then (case fst (c_solve_primal c (problem s) (ST s)) of Inl e \<Rightarrow> None | Inr g \<Rightarrow> Some g)
            else goal_functional s)"
  using assms
  by (auto simp: reach_check_def primal_phase_def dual_phase_def estimate_phase_def say_simps Let_def
           split: if_splits prod.splits sum.splits)

lemma loop_break:
  assumes "reach_check c p s = Inr (err, s1)" and "err \<le> p_tolerance p"
  shows "adaptive_loop c p s =
           Some (Inr (goal_functional s1),
                 say [Begin ''Checking error estimate'',
                      InfoGreen ''Adaptive solver converged: error = %g <= TOL = %g'' [err, p_tolerance p],
                      InfoBlue ''Solution computed in %g seconds.'' []] s1)"
  using assms
  by (subst adaptive_loop.simps)
     (simp add: adaptive_iteration_def check_phase_def Let_def say_def)

text \<open>
  Claim C1, as the code has it. When an iteration started in \<open>s\<close> arrives at the error check
  with \<open>error \<le> tolerance\<close>, the loop ends there: \<open>FSISolver.solve\<close> returns the value held
  by \<open>goal_functional\<close> at the check (the result of this iteration's primal solve, or what
  the variable held before when the primal solve is switched off), the iteration is a
  \<open>break\<close>, and from the start of the iteration to the return there is no refinement, no
  \<open>init_meshes\<close> and no \<open>save_mesh\<close>. The primal solver ran once in that time when
  \<open>parameters["solve_primal"]\<close> is set and not at all otherwise. For the first iteration \<open>s\<close> is \<open>initial_solver_state w\<close>, whose trace is
  empty, so the counts are those of the whole run.
\<close>
theorem adaptive_loop_stops_at_small_error:
  assumes "reach_check c p s = Inr (err, s1)" and "err \<le> p_tolerance p"
  shows "\<exists>s'. adaptive_loop c p s = Some (Inr (goal_functional s1), s')
              \<and> adaptive_iteration c p s = Break (s'\<lparr>trace := butlast (trace s')\<rparr>)
              \<and> problem s' = problem s1
              \<and> goal_functional s1 =
                  (if p_solve_primal p
                   then (case fst (c_solve_primal c (problem s) (ST s)) of Inl e \<Rightarrow> None | Inr g \<Rightarrow> Some g)
                   else goal_functional s)
              \<and> filter is_mesh_change (new_events s s') = []
              \<and> length (filter is_primal_solve (new_events s s')) = (if p_solve_primal p then 1 else 0)"
proof -
  let ?evs = "[Begin ''Checking error estimate'',
               InfoGreen ''Adaptive solver converged: error = %g <= TOL = %g'' [err, p_tolerance p],
               InfoBlue ''Solution computed in %g seconds.'' []]"
  let ?s' = "say ?evs s1"
  from reach_check_trace[OF assms(1)] obtain evs where evs: "trace s1 = trace s @ evs"
    "filter is_mesh_change evs = []"
    "length (filter is_primal_solve evs) = (if p_solve_primal p then 1 else 0)" by blast
  have ne: "new_events s ?s' = evs @ ?evs"
    by (simp add: new_events_def say_simps evs(1))
  have "adaptive_loop c p s = Some (Inr (goal_functional s1), ?s')"
    by (rule loop_break[OF assms])
  moreover have "adaptive_iteration c p s = Break (?s'\<lparr>trace := butlast (trace ?s')\<rparr>)"
    using assms by (simp add: adaptive_iteration_def check_phase_def Let_def say_def butlast_append)
  moreover have "problem ?s' = problem s1" by (simp add: say_simps)
  moreover note reach_check_goal_functional[OF assms(1)]
  moreover have "filter is_mesh_change (new_events s ?s') = []"
    by (simp add: ne evs(2))
  moreover have "length (filter is_primal_solve (new_events s ?s')) = (if p_solve_primal p then 1 else 0)"
    by (simp add: ne evs(3))
  ultimately show ?thesis by blast
qed

text \<open>A run with the primal solve switched on that stops at its first check.\<close>
theorem adaptive_loop_stops_at_small_error_witness:
  "\<exists>s'. adaptive_loop (stub_adaptivity 0 0) (stub_parameters (1/2) True True) (initial_solver_state 0)
          = Some (Inr (Some 7), s')
       \<and> problem s' = (0::nat)
       \<and> filter is_mesh_change (new_events (initial_solver_state 0) s') = []
       \<and> length (filter is_primal_solve (new_events (initial_solver_state 0) s')) = 1"
proof -
  let ?c = "stub_adaptivity 0 0" and ?p = "stub_parameters (1/2) True True"
  let ?s1 = "\<lparr>problem = 0::nat,
              trace = [Begin ''Solving primal problem'', SolvePrimal 1, End,
                       Info ''Not solving dual problem'',
                       Begin ''Estimating error and computing error indicators'', EstimateError, End],
              ST = 2, goal_functional = Some 7, E_h = Some 0, indicators = Some ()\<rparr>"
  have a: "reach_check ?c ?p (initial_solver_state 0) = Inr (0, ?s1)"
    by (simp add: reach_check_def primal_phase_def dual_phase_def estimate_phase_def
        initial_solver_state_def stub_adaptivity_def stub_parameters_def say_def Let_def)
  have b: "0 \<le> p_tolerance ?p" by (simp add: stub_parameters_def)
  have c: "p_solve_primal ?p" by (simp add: stub_parameters_def)
  from adaptive_loop_stops_at_small_error[OF a b] c show ?thesis by auto
qed

text \<open>
  C1 as stated promises exactly one primal solve whenever the first check succeeds. With
  \<open>solve_primal = False\<close> the first check succeeds and the run returns, but the number of
  primal solves is zero and the returned goal functional is \<open>None\<close>.
\<close>
theorem small_error_without_primal_solve:
  "map_sum fst fst
     (reach_check (stub_adaptivity 0 0) (stub_parameters 0 False False) (initial_solver_state 0)) = Inr 0
   \<and> 0 \<le> p_tolerance (stub_parameters 0 False False)
   \<and> map_option fst (FSISolver_solve (stub_adaptivity 0 0) (stub_parameters 0 False False) 0)
        = Some (Inr None)
   \<and> map_option (length \<circ> filter is_primal_solve \<circ> trace \<circ> snd)
        (FSISolver_solve (stub_adaptivity 0 0) (stub_parameters 0 False False) 0) = Some 0"
  by (simp add: FSISolver_solve_def adaptive_loop.simps adaptive_iteration_def reach_check_def primal_phase_def dual_phase_def estimate_phase_def check_phase_def
      initial_solver_state_def stub_adaptivity_def stub_parameters_def say_def Let_def)


text \<open>
  Claim C5. An iteration that arrives at the error check with \<open>error > tolerance\<close> and
  \<open>E_h \<le> w_h * tolerance\<close> continues the loop with the problem object untouched since the
  check, hence with the same mesh; the mesh passed to \<open>save_mesh\<close> is that mesh, and no
  refinement (uniform or by indicators) happened anywhere in the iteration.
\<close>
theorem mesh_freeze_reuses_mesh:
  assumes "reach_check c p s = Inr (err, s1)" and "p_tolerance p < err"
    and "E_h s1 = Some eh" and "eh \<le> p_w_h p * p_tolerance p"
  shows "\<exists>s'. adaptive_iteration c p s = Continue s'
              \<and> adaptive_loop c p s = adaptive_loop c p s'
              \<and> problem s' = problem s1
              \<and> c_mesh c (problem s') = c_mesh c (problem s1)
              \<and> new_events s1 s' =
                  [Begin ''Checking error estimate'',
                   InfoRed ''Error too large, need to refine: error = %g > TOL = %g'' [err, p_tolerance p],
                   End,
                   Begin ''Checking space error estimate'',
                   InfoBlue ''Freezing current mesh: E_h = %g <= TOL_h = %g'' [eh, p_w_h p * p_tolerance p],
                   End,
                   SaveMesh (c_mesh c (problem s1))]
              \<and> filter is_refinement (new_events s s') = []"
proof -
  from reach_check_trace[OF assms(1)] obtain evs where evs: "trace s1 = trace s @ evs"
    "filter is_mesh_change evs = []" by blast
  have nr: "filter is_refinement evs = []"
  proof -
    have "is_refinement e \<Longrightarrow> is_mesh_change e" for e :: "('b, 'c) event"
      by (cases e) simp_all
    with evs(2) show ?thesis by (auto simp: filter_empty_conv)
  qed
  let ?s' = "say [Begin ''Checking error estimate'',
                   InfoRed ''Error too large, need to refine: error = %g > TOL = %g'' [err, p_tolerance p],
                   End,
                   Begin ''Checking space error estimate'',
                   InfoBlue ''Freezing current mesh: E_h = %g <= TOL_h = %g'' [eh, p_w_h p * p_tolerance p],
                   End,
                   SaveMesh (c_mesh c (problem s1))] s1"
  have it: "adaptive_iteration c p s = Continue ?s'"
    using assms by (simp add: adaptive_iteration_def check_phase_def mesh_phase_def Let_def say_def)
  have "adaptive_loop c p s = adaptive_loop c p ?s'"
    by (subst adaptive_loop.simps) (simp add: it)
  moreover have "filter is_refinement (new_events s ?s') = []"
    by (simp add: new_events_def say_simps evs(1) nr)
  moreover have "new_events s1 ?s' = [Begin ''Checking error estimate'',
                   InfoRed ''Error too large, need to refine: error = %g > TOL = %g'' [err, p_tolerance p],
                   End,
                   Begin ''Checking space error estimate'',
                   InfoBlue ''Freezing current mesh: E_h = %g <= TOL_h = %g'' [eh, p_w_h p * p_tolerance p],
                   End,
                   SaveMesh (c_mesh c (problem s1))]"
    by (simp add: new_events_def say_simps)
  ultimately show ?thesis using it by (auto simp: say_simps)
qed

text \<open>A freezing iteration: error 1 above tolerance 1/2, \<open>E_h = 0\<close>.\<close>
theorem mesh_freeze_reuses_mesh_witness:
  "\<exists>s'. adaptive_iteration (stub_adaptivity 1 0) (stub_parameters (1/2) True True) (initial_solver_state 0) = Continue s'
       \<and> problem s' = (0::nat)
       \<and> filter is_refinement (new_events (initial_solver_state 0) s') = []"
proof -
  let ?c = "stub_adaptivity 1 0" and ?p = "stub_parameters (1/2) True True"
  let ?s1 = "\<lparr>problem = 0::nat,
              trace = [Begin ''Solving primal problem'', SolvePrimal 1, End,
                       Info ''Not solving dual problem'',
                       Begin ''Estimating error and computing error indicators'', EstimateError, End],
              ST = 2, goal_functional = Some 7, E_h = Some 0, indicators = Some ()\<rparr>"
  have a: "reach_check ?c ?p (initial_solver_state 0) = Inr (1, ?s1)"
    by (simp add: reach_check_def primal_phase_def dual_phase_def estimate_phase_def
        initial_solver_state_def stub_adaptivity_def stub_parameters_def say_def Let_def)
  have b: "p_tolerance ?p < 1" by (simp add: stub_parameters_def)
  have c: "E_h ?s1 = Some 0" by simp
  have d: "(0::real) \<le> p_w_h ?p * p_tolerance ?p" by (simp add: stub_parameters_def)
  from mesh_freeze_reuses_mesh[OF a b c d] show ?thesis
    by auto
qed


text \<open>
  Claim C4, as the code has it. An iteration that continues the loop had \<open>error > tolerance\<close>
  and a bound \<open>E_h\<close>, and it ends with \<open>save_mesh\<close> of the resulting mesh. When the mesh was
  refined, \<open>init_meshes\<close> is called with the refined mesh just before; when the mesh was
  frozen, the problem object is left as it was at the check and \<open>init_meshes\<close> is not
  called.
\<close>
theorem continuing_iteration_mesh_update:
  assumes "adaptive_iteration c p s = Continue s'"
  shows "\<exists>err s1 eh.
           reach_check c p s = Inr (err, s1) \<and> p_tolerance p < err \<and> E_h s1 = Some eh
         \<and> adaptive_loop c p s = adaptive_loop c p s'
         \<and> (if eh \<le> p_w_h p * p_tolerance p then
               problem s' = problem s1
             \<and> new_events s1 s' =
                  [Begin ''Checking error estimate'',
                   InfoRed ''Error too large, need to refine: error = %g > TOL = %g'' [err, p_tolerance p],
                   End,
                   Begin ''Checking space error estimate'',
                   InfoBlue ''Freezing current mesh: E_h = %g <= TOL_h = %g'' [eh, p_w_h p * p_tolerance p],
                   End,
                   SaveMesh (c_mesh c (problem s1))]
             else
               (\<exists>ev m w.
                  (if c_convergence_test c (problem s1) \<and> \<not> c_problem_estimate_error c (problem s1)
                   then ev = Refine (c_mesh c (problem s1)) \<and> m = c_refine c (c_mesh c (problem s1))
                      \<and> w = problem s1
                   else \<exists>ind. indicators s1 = Some ind \<and> ev = RefineMesh (c_mesh c (problem s1)) ind
                      \<and> (m, w) = c_refine_mesh c (problem s1) (c_mesh c (problem s1)) ind)
                \<and> problem s' = c_init_meshes c m w
                \<and> new_events s1 s' =
                  [Begin ''Checking error estimate'',
                   InfoRed ''Error too large, need to refine: error = %g > TOL = %g'' [err, p_tolerance p],
                   End,
                   Begin ''Checking space error estimate'',
                   InfoRed ''Refining mesh'' [],
                   ev, InitMeshes m, End, SaveMesh m]))"
proof -
  from assms obtain err s1 where rc: "reach_check c p s = Inr (err, s1)"
    and ck: "check_phase c p err s1 = Continue s'"
    by (auto simp: adaptive_iteration_def split: sum.splits prod.splits)
  from ck have big: "p_tolerance p < err"
    by (auto simp: check_phase_def Let_def split: if_splits)
  let ?s2 = "say [Begin ''Checking error estimate'',
                  InfoRed ''Error too large, need to refine: error = %g > TOL = %g'' [err, p_tolerance p],
                  End] s1"
  from ck big have mp: "mesh_phase c p ?s2 = Continue s'"
    by (simp add: check_phase_def Let_def say_def)
  from mp obtain eh where eh: "E_h s1 = Some eh"
    by (cases "E_h s1") (auto simp: mesh_phase_def Let_def say_def)
  have lp: "adaptive_loop c p s = adaptive_loop c p s'"
    by (subst adaptive_loop.simps) (simp add: assms)
  have rest: "(if eh \<le> p_w_h p * p_tolerance p then
               problem s' = problem s1
             \<and> new_events s1 s' =
                  [Begin ''Checking error estimate'',
                   InfoRed ''Error too large, need to refine: error = %g > TOL = %g'' [err, p_tolerance p],
                   End,
                   Begin ''Checking space error estimate'',
                   InfoBlue ''Freezing current mesh: E_h = %g <= TOL_h = %g'' [eh, p_w_h p * p_tolerance p],
                   End,
                   SaveMesh (c_mesh c (problem s1))]
             else
               (\<exists>ev m w.
                  (if c_convergence_test c (problem s1) \<and> \<not> c_problem_estimate_error c (problem s1)
                   then ev = Refine (c_mesh c (problem s1)) \<and> m = c_refine c (c_mesh c (problem s1))
                      \<and> w = problem s1
                   else \<exists>ind. indicators s1 = Some ind \<and> ev = RefineMesh (c_mesh c (problem s1)) ind
                      \<and> (m, w) = c_refine_mesh c (problem s1) (c_mesh c (problem s1)) ind)
                \<and> problem s' = c_init_meshes c m w
                \<and> new_events s1 s' =
                  [Begin ''Checking error estimate'',
                   InfoRed ''Error too large, need to refine: error = %g > TOL = %g'' [err, p_tolerance p],
                   End,
                   Begin ''Checking space error estimate'',
                   InfoRed ''Refining mesh'' [],
                   ev, InitMeshes m, End, SaveMesh m]))"
  proof (cases "eh \<le> p_w_h p * p_tolerance p")
    case True
    with mp eh show ?thesis
      by (auto simp: mesh_phase_def Let_def say_def new_events_def)
  next
    case False
    note nf = False
    show ?thesis
    proof (cases "c_convergence_test c (problem s1) \<and> \<not> c_problem_estimate_error c (problem s1)")
      case True
      with mp eh nf show ?thesis
        by (auto simp: mesh_phase_def Let_def say_def new_events_def)
    next
      case False
      with mp eh nf obtain ind where ind: "indicators s1 = Some ind"
        by (cases "indicators s1") (auto simp: mesh_phase_def Let_def say_def)
      obtain m w where mw: "c_refine_mesh c (problem s1) (c_mesh c (problem s1)) ind = (m, w)"
        by (cases "c_refine_mesh c (problem s1) (c_mesh c (problem s1)) ind")
      from mp eh nf False ind mw have "s' = say [SaveMesh m] (say [End] (say [InitMeshes m]
            ((say [RefineMesh (c_mesh c (problem s1)) ind] ((say [InfoRed ''Refining mesh'' []]
               (say [Begin ''Checking space error estimate''] ?s2))\<lparr>problem := w\<rparr>))
               \<lparr>problem := c_init_meshes c m w\<rparr>)))"
        by (auto simp: mesh_phase_def Let_def say_def)
      then have "problem s' = c_init_meshes c m w"
        and "new_events s1 s' =
                  [Begin ''Checking error estimate'',
                   InfoRed ''Error too large, need to refine: error = %g > TOL = %g'' [err, p_tolerance p],
                   End,
                   Begin ''Checking space error estimate'',
                   InfoRed ''Refining mesh'' [],
                   RefineMesh (c_mesh c (problem s1)) ind, InitMeshes m, End, SaveMesh m]"
        by (simp_all add: say_def new_events_def)
      with nf False ind mw show ?thesis by auto
    qed
  qed
  from rc big eh lp rest show ?thesis by blast
qed

text \<open>A refining iteration: error 1 above tolerance 1/2, \<open>E_h = 1\<close> above 1/4.\<close>
theorem continuing_iteration_mesh_update_witness:
  "\<exists>err s1 eh.
      reach_check (stub_adaptivity 1 1) (stub_parameters (1/2) True True) (initial_solver_state 0) = Inr (err, s1)
    \<and> p_tolerance (stub_parameters (1/2) True True) < err \<and> E_h s1 = Some eh
    \<and> \<not> eh \<le> p_w_h (stub_parameters (1/2) True True) * p_tolerance (stub_parameters (1/2) True True)
    \<and> problem s1 = (0::nat)"
proof -
  let ?c = "stub_adaptivity 1 1" and ?p = "stub_parameters (1/2) True True"
  let ?s' = "\<lparr>problem = 1::nat,
           trace = [Begin ''Solving primal problem'', SolvePrimal 1, End,
                    Info ''Not solving dual problem'',
                    Begin ''Estimating error and computing error indicators'', EstimateError, End,
                    Begin ''Checking error estimate'',
                    InfoRed ''Error too large, need to refine: error = %g > TOL = %g'' [1, 1/2],
                    End,
                    Begin ''Checking space error estimate'',
                    InfoRed ''Refining mesh'' [],
                    RefineMesh 0 (), InitMeshes 1, End, SaveMesh 1],
           ST = 2, goal_functional = Some 7, E_h = Some 1, indicators = Some ()\<rparr>"
  have a: "adaptive_iteration ?c ?p (initial_solver_state 0) = Continue ?s'"
    by (simp add: adaptive_iteration_def reach_check_def primal_phase_def dual_phase_def
        estimate_phase_def check_phase_def mesh_phase_def
        initial_solver_state_def stub_adaptivity_def stub_parameters_def say_def Let_def)
  have r: "reach_check ?c ?p (initial_solver_state 0) = Inr (err, s1) \<Longrightarrow> E_h s1 = Some eh
       \<Longrightarrow> \<not> eh \<le> p_w_h ?p * p_tolerance ?p \<and> problem s1 = 0" for err s1 eh
    by (auto simp: reach_check_def primal_phase_def dual_phase_def estimate_phase_def
        initial_solver_state_def stub_adaptivity_def stub_parameters_def say_def Let_def)
  from continuing_iteration_mesh_update[OF a] obtain err s1 eh where
    "reach_check ?c ?p (initial_solver_state 0) = Inr (err, s1)"
    "p_tolerance ?p < err" "E_h s1 = Some eh"
    by blast
  with r[of err s1 eh] show ?thesis by blast
qed

text \<open>
  C4 as stated has the problem meshes re-initialised in every continuing iteration. In this
  freezing iteration the trace shows \<open>save_mesh\<close> and no \<open>init_meshes\<close>.
\<close>
theorem frozen_iteration_skips_init_meshes:
  "adaptive_iteration (stub_adaptivity 1 0) (stub_parameters (1/2) True True) (initial_solver_state 0) =
     Continue
       \<lparr>problem = 0::nat,
        trace = [Begin ''Solving primal problem'', SolvePrimal 1, End,
                 Info ''Not solving dual problem'',
                 Begin ''Estimating error and computing error indicators'', EstimateError, End,
                 Begin ''Checking error estimate'',
                 InfoRed ''Error too large, need to refine: error = %g > TOL = %g'' [1, 1/2],
                 End,
                 Begin ''Checking space error estimate'',
                 InfoBlue ''Freezing current mesh: E_h = %g <= TOL_h = %g'' [0, 1/4],
                 End, SaveMesh 0],
        ST = 2, goal_functional = Some 7, E_h = Some 0, indicators = Some ()\<rparr>
   \<and> filter is_init_meshes
        [Begin ''Solving primal problem'', SolvePrimal 1, End,
         Info ''Not solving dual problem'',
         Begin ''Estimating error and computing error indicators'', EstimateError, End,
         Begin ''Checking error estimate'',
         InfoRed ''Error too large, need to refine: error = %g > TOL = %g'' [1, 1/2],
         End,
         Begin ''Checking space error estimate'',
         InfoBlue ''Freezing current mesh: E_h = %g <= TOL_h = %g'' [0, 1/4],
         End, (SaveMesh 0 :: (nat, unit) event)] = []"
  by (simp add: adaptive_iteration_def reach_check_def primal_phase_def dual_phase_def
        estimate_phase_def check_phase_def mesh_phase_def
        initial_solver_state_def stub_adaptivity_def stub_parameters_def say_def Let_def)


lemma primal_phase_no_mesh_check:
  assumes "primal_phase c p s = Inr s1"
  shows "set (trace s1) - set (trace s) \<subseteq>
           {Begin ''Solving primal problem'', SolvePrimal (ST s), End, Info ''Not solving primal problem''}"
  using assms
  by (auto simp: primal_phase_def say_simps Let_def split: if_splits prod.splits sum.splits)

lemma dual_phase_no_mesh_check:
  "set (trace (dual_phase c p s)) - set (trace s) \<subseteq>
           {Begin ''Solving dual problem'', SolveDual, End, Info ''Not solving dual problem''}"
  by (auto simp: dual_phase_def say_simps Let_def)

text \<open>
  Claim C7, as the code has it. With error estimation switched off and \<open>tolerance \<ge> 0\<close>, the
  run ends in its first iteration. If the primal solve raised, that error is the result and
  the error check is not reached. If it returned, or was switched off, \<open>error\<close> is 0, the
  message \<open>"Not estimating error"\<close> is reported through \<open>info\<close>, the check succeeds and the
  goal functional is returned; the trace has no mesh phase.
\<close>
theorem no_estimation_stops_at_first_check:
  assumes "\<not> p_estimate_error p" and "0 \<le> p_tolerance p"
  shows "case primal_phase c p (initial_solver_state w) of
           Inl (e, s1) \<Rightarrow> FSISolver_solve c p w = Some (Inl e, s1)
         | Inr s1 \<Rightarrow>
             (\<exists>s'. FSISolver_solve c p w = Some (Inr (goal_functional s1), s')
                \<and> trace s' = trace (dual_phase c p s1) @
                     [Info ''Not estimating error'',
                      Begin ''Checking error estimate'',
                      InfoGreen ''Adaptive solver converged: error = %g <= TOL = %g'' [0, p_tolerance p],
                      InfoBlue ''Solution computed in %g seconds.'' []]
                \<and> filter is_mesh_change (trace s') = []
                \<and> Begin ''Checking space error estimate'' \<notin> set (trace s'))"
proof (cases "primal_phase c p (initial_solver_state w)")
  case (Inl es)
  obtain e s1 where es: "es = (e, s1)" by (cases es)
  have "adaptive_iteration c p (initial_solver_state w) = Raise e s1"
    using Inl es by (simp add: adaptive_iteration_def reach_check_def)
  then have "FSISolver_solve c p w = Some (Inl e, s1)"
    unfolding FSISolver_solve_def by (subst adaptive_loop.simps) simp
  with Inl es show ?thesis by simp
next
  case (Inr s1)
  let ?s0 = "initial_solver_state w :: ('a, 'b, 'c) solver_state"
  let ?s2 = "say [Info ''Not estimating error''] (dual_phase c p s1)"
  have rc: "reach_check c p ?s0 = Inr (0, ?s2)"
    using Inr assms(1) by (simp add: reach_check_def estimate_phase_def)
  let ?s' = "say [Begin ''Checking error estimate'',
                  InfoGreen ''Adaptive solver converged: error = %g <= TOL = %g'' [0, p_tolerance p],
                  InfoBlue ''Solution computed in %g seconds.'' []] ?s2"
  have res: "FSISolver_solve c p w = Some (Inr (goal_functional ?s2), ?s')"
    unfolding FSISolver_solve_def by (rule loop_break[OF rc assms(2)])
  have gf: "goal_functional ?s2 = goal_functional s1"
    by (simp add: say_simps dual_phase_def Let_def)
  have tr: "trace ?s' = trace (dual_phase c p s1) @
                     [Info ''Not estimating error'',
                      Begin ''Checking error estimate'',
                      InfoGreen ''Adaptive solver converged: error = %g <= TOL = %g'' [0, p_tolerance p],
                      InfoBlue ''Solution computed in %g seconds.'' []]"
    by (simp add: say_simps)
  from reach_check_trace[OF rc] have "filter is_mesh_change (trace ?s2) = []"
    by (auto simp: initial_solver_state_def)
  then have nm: "filter is_mesh_change (trace ?s') = []"
    by (simp add: say_simps)
  have "trace ?s0 = []" by (simp add: initial_solver_state_def)
  with primal_phase_no_mesh_check[OF Inr]
  have p1: "Begin ''Checking space error estimate'' \<notin> set (trace s1)" by auto
  with dual_phase_no_mesh_check[of c p s1]
  have "Begin ''Checking space error estimate'' \<notin> set (trace (dual_phase c p s1))" by auto
  then have nb: "Begin ''Checking space error estimate'' \<notin> set (trace ?s')"
    by (simp add: say_simps)
  from res gf tr nm nb Inr show ?thesis by auto
qed

text \<open>A run without error estimation.\<close>
theorem no_estimation_stops_at_first_check_witness:
  "\<exists>s'. FSISolver_solve (stub_adaptivity 1 1) (stub_parameters (1/2) True False) (0::nat)
          = Some (Inr (Some 7), s')
      \<and> trace s' =
          [Begin ''Solving primal problem'', SolvePrimal 1, End,
           Info ''Not solving dual problem'',
           Info ''Not estimating error'',
           Begin ''Checking error estimate'',
           InfoGreen ''Adaptive solver converged: error = %g <= TOL = %g'' [0, 1/2],
           InfoBlue ''Solution computed in %g seconds.'' []]"
proof -
  let ?c = "stub_adaptivity 1 1" and ?p = "stub_parameters (1/2) True False"
  have a: "\<not> p_estimate_error ?p" and b: "0 \<le> p_tolerance ?p"
    by (simp_all add: stub_parameters_def)
  have c: "primal_phase ?c ?p (initial_solver_state 0) =
     Inr \<lparr>problem = 0::nat, trace = [Begin ''Solving primal problem'', SolvePrimal 1, End],
          ST = 1, goal_functional = Some 7, E_h = None, indicators = None\<rparr>"
    by (simp add: primal_phase_def initial_solver_state_def stub_adaptivity_def stub_parameters_def say_def Let_def)
  from no_estimation_stops_at_first_check[OF a b, of ?c 0] have "\<exists>s'. FSISolver_solve ?c ?p 0 = Some (Inr (Some 7), s')
      \<and> trace s' =
          [Begin ''Solving primal problem'', SolvePrimal 1, End,
           Info ''Not solving dual problem'',
           Info ''Not estimating error'',
           Begin ''Checking error estimate'',
           InfoGreen ''Adaptive solver converged: error = %g <= TOL = %g'' [0, p_tolerance ?p],
           InfoBlue ''Solution computed in %g seconds.'' []]"
    unfolding c by (auto simp: dual_phase_def say_def stub_parameters_def)
  then show ?thesis by (simp add: stub_parameters_def)
qed

text \<open>
  C7 as stated covers every run without error estimation. Here the primal solve raises, as
  \<open>solve_primal\<close> does at line 54: the run ends with that error after the two events of the
  primal phase. There is no error check, and \<open>"Not estimating error"\<close> is never reported.
\<close>
theorem raising_primal_solve_skips_the_check:
  "\<not> p_estimate_error (stub_parameters (1/2) True False)
   \<and> 0 \<le> p_tolerance (stub_parameters (1/2) True False)
   \<and> map_option (map_prod id trace)
        (FSISolver_solve raising_adaptivity (stub_parameters (1/2) True False) 0)
      = Some (Inl (TypeError 3 2), [Begin ''Solving primal problem'', SolvePrimal 1])"
  by (simp add: FSISolver_solve_def adaptive_loop.simps adaptive_iteration_def reach_check_def
      primal_phase_def initial_solver_state_def raising_adaptivity_def stub_adaptivity_def
      stub_parameters_def say_def Let_def)

lemma mesh_phase_frame:
  "goal_functional (outcome_state (mesh_phase c p s)) = goal_functional s"
  "filter is_primal_solve (trace (outcome_state (mesh_phase c p s))) = filter is_primal_solve (trace s)"
  by (simp_all add: mesh_phase_def Let_def say_def split: option.split prod.split)

lemma check_phase_frame:
  "goal_functional (outcome_state (check_phase c p err s)) = goal_functional s"
  "filter is_primal_solve (trace (outcome_state (check_phase c p err s))) = filter is_primal_solve (trace s)"
  by (simp_all add: check_phase_def Let_def mesh_phase_frame) (simp_all add: say_def)

lemma reach_check_no_primal:
  assumes "\<not> p_solve_primal p"
  shows "\<exists>err s1. reach_check c p s = Inr (err, s1) \<and> goal_functional s1 = goal_functional s
          \<and> filter is_primal_solve (trace s1) = filter is_primal_solve (trace s)"
  using assms
  by (simp add: reach_check_def primal_phase_def dual_phase_def estimate_phase_def say_def Let_def
      split: prod.split)

lemma adaptive_iteration_no_primal:
  assumes "\<not> p_solve_primal p"
  shows "goal_functional (outcome_state (adaptive_iteration c p s)) = goal_functional s"
    and "filter is_primal_solve (trace (outcome_state (adaptive_iteration c p s))) = filter is_primal_solve (trace s)"
proof -
  from reach_check_no_primal[OF assms, of c s] obtain err s1 where
    r: "reach_check c p s = Inr (err, s1)" "goal_functional s1 = goal_functional s"
     "filter is_primal_solve (trace s1) = filter is_primal_solve (trace s)" by blast
  show "goal_functional (outcome_state (adaptive_iteration c p s)) = goal_functional s"
    by (simp add: adaptive_iteration_def r check_phase_frame)
  show "filter is_primal_solve (trace (outcome_state (adaptive_iteration c p s))) = filter is_primal_solve (trace s)"
    by (simp add: adaptive_iteration_def r check_phase_frame)
qed

lemma adaptive_loop_no_primal:
  assumes "adaptive_loop c p s = Some rs"
  shows "\<not> p_solve_primal p \<longrightarrow> goal_functional s = None \<longrightarrow> filter is_primal_solve (trace s) = []
     \<longrightarrow> goal_functional (snd rs) = None \<and> filter is_primal_solve (trace (snd rs)) = []
       \<and> (\<forall>g. fst rs = Inr g \<longrightarrow> g = None)"
proof (rule adaptive_loop.raw_induct[where P = "\<lambda>c p s rs.
     \<not> p_solve_primal p \<longrightarrow> goal_functional s = None \<longrightarrow> filter is_primal_solve (trace s) = []
     \<longrightarrow> goal_functional (snd rs) = None \<and> filter is_primal_solve (trace (snd rs)) = []
       \<and> (\<forall>g. fst rs = Inr g \<longrightarrow> g = None)", OF _ assms])
  fix loop :: "('a, 'b, 'c) adaptivity \<Rightarrow> parameters \<Rightarrow> ('a, 'b, 'c) solver_state
    \<Rightarrow> ((error + real option) \<times> ('a, 'b, 'c) solver_state) option"
  fix c p s rs
  assume IH: "\<And>c p s rs. loop c p s = Some rs \<Longrightarrow>
     \<not> p_solve_primal p \<longrightarrow> goal_functional s = None \<longrightarrow> filter is_primal_solve (trace s) = []
     \<longrightarrow> goal_functional (snd rs) = None \<and> filter is_primal_solve (trace (snd rs)) = []
       \<and> (\<forall>g. fst rs = Inr g \<longrightarrow> g = None)"
  assume body: "(case adaptive_iteration c p s of
        Continue s' \<Rightarrow> loop c p s'
      | Break s' \<Rightarrow> Some (Inr (goal_functional s'), say [InfoBlue ''Solution computed in %g seconds.'' []] s')
      | Raise e s' \<Rightarrow> Some (Inl e, s')) = Some rs"
  show "\<not> p_solve_primal p \<longrightarrow> goal_functional s = None \<longrightarrow> filter is_primal_solve (trace s) = []
     \<longrightarrow> goal_functional (snd rs) = None \<and> filter is_primal_solve (trace (snd rs)) = []
       \<and> (\<forall>g. fst rs = Inr g \<longrightarrow> g = None)"
  proof (intro impI)
    assume a: "\<not> p_solve_primal p" "goal_functional s = None" "filter is_primal_solve (trace s) = []"
    note inv = adaptive_iteration_no_primal[OF a(1), of c s]
    show "goal_functional (snd rs) = None \<and> filter is_primal_solve (trace (snd rs)) = []
       \<and> (\<forall>g. fst rs = Inr g \<longrightarrow> g = None)"
    proof (cases "adaptive_iteration c p s")
      case (Continue s')
      with body have "loop c p s' = Some rs" by simp
      moreover from inv Continue a have "goal_functional s' = None" "filter is_primal_solve (trace s') = []"
        by simp_all
      ultimately show ?thesis using IH[of c p s' rs] a(1) by blast
    next
      case (Break s')
      with body inv a show ?thesis by (auto simp: say_simps)
    next
      case (Raise e s')
      with body inv a show ?thesis by auto
    qed
  qed
qed

text \<open>
  Claim C10. With \<open>solve_primal = False\<close>, whenever \<open>FSISolver.solve\<close> returns, it returns
  \<open>None\<close>: the variable \<open>goal_functional\<close> is never assigned and the primal solver is
  never called.
\<close>
theorem no_primal_solve_returns_None:
  assumes "\<not> p_solve_primal p" and "FSISolver_solve c p w = Some (Inr g, s')"
  shows "g = None \<and> goal_functional s' = None \<and> filter is_primal_solve (trace s') = []"
proof -
  have "goal_functional (initial_solver_state w :: ('a, 'b, 'c) solver_state) = None"
    and "filter is_primal_solve (trace (initial_solver_state w :: ('a, 'b, 'c) solver_state)) = []"
    by (simp_all add: initial_solver_state_def)
  with adaptive_loop_no_primal[of c p "initial_solver_state w" "(Inr g, s')"] assms
  show ?thesis by (simp add: FSISolver_solve_def)
qed


text \<open>Such a run does return.\<close>
theorem no_primal_solve_returns_None_witness:
  "\<exists>g s'. FSISolver_solve (stub_adaptivity 0 0) (stub_parameters (1/2) False False) (0::nat) = Some (Inr g, s')
      \<and> g = None \<and> goal_functional s' = None \<and> filter is_primal_solve (trace s') = []"
proof -
  let ?c = "stub_adaptivity 0 0" and ?p = "stub_parameters (1/2) False False"
  let ?s' = "\<lparr>problem = 0::nat,
              trace = [Info ''Not solving primal problem'', Info ''Not solving dual problem'',
                       Info ''Not estimating error'', Begin ''Checking error estimate'',
                       InfoGreen ''Adaptive solver converged: error = %g <= TOL = %g'' [0, 1/2],
                       InfoBlue ''Solution computed in %g seconds.'' []],
              ST = 1, goal_functional = None, E_h = None, indicators = None :: unit option\<rparr>"
  have a: "\<not> p_solve_primal ?p" by (simp add: stub_parameters_def)
  have run: "FSISolver_solve ?c ?p 0 = Some (Inr None, ?s')"
    by (simp add: FSISolver_solve_def adaptive_loop.simps adaptive_iteration_def reach_check_def
        primal_phase_def dual_phase_def estimate_phase_def check_phase_def
        initial_solver_state_def stub_adaptivity_def stub_parameters_def say_def Let_def)
  from no_primal_solve_returns_None[OF a run] run show ?thesis by blast
qed

section \<open>Construction of the subproblems\<close>

text \<open>\<open>StructureProblem(problem)\<close> at line 54 passes one argument where two are declared: every
  call of \<open>solve_primal\<close> ends there, before the first time step.\<close>

lemma construct_subproblems_raises: "construct_subproblems = Inl (TypeError 3 2)"
  by (simp add: construct_subproblems_def construct_def)

lemma solve_primal_raises: "solve_primal c p w st = Some (Inl (TypeError 3 2), w, [])"
  by (simp add: solve_primal_def construct_subproblems_raises)

section \<open>Rounding\<close>

lemmas round_double_unfold = round_double_def binary_exponent_def compute_floorlog
  round_half_even_def times_power_of_two_def Let_def

text \<open>Some doubles: small integers and halves are doubles, \<open>1/10\<close> and \<open>1/3\<close> are not, and
  above \<open>2 ^ 53\<close> only the even integers are.\<close>

lemma round_double_examples:
  "round_double 0 = 0" "round_double 1 = 1" "round_double 2 = 2" "round_double 5 = 5"
  "round_double (1/2) = 1/2" "round_double (- 7/2) = - 7/2"
  "round_double (1/10) = 7205759403792794 / 2 ^ 56"
  "round_double (1/3) = 6004799503160661 / 2 ^ 54"
  "round_double (2 ^ 53 + 1) = 2 ^ 53" "round_double (2 ^ 53 + 3) = 2 ^ 53 + 4"
  by (simp_all add: round_double_unfold)

lemma DOLFIN_EPS_value: "DOLFIN_EPS = 6084722881095501 / 2 ^ 104"
  by (simp add: DOLFIN_EPS_def round_double_unfold)

text \<open>\<open>T - DOLFIN_EPS\<close> for some end times: between 4 and 8 the doubles are \<open>2 ^ -50\<close> apart,
  which is more than twice \<open>DOLFIN_EPS\<close>, so that the difference rounds back to \<open>T\<close>.\<close>

lemma end_time_minus_DOLFIN_EPS:
  "fsub 1 DOLFIN_EPS = 1 - 3 / 2 ^ 53"
  "fsub 2 DOLFIN_EPS = 2 - 1 / 2 ^ 52"
  "fsub 4 DOLFIN_EPS = 4 - 1 / 2 ^ 51"
  "fsub 5 DOLFIN_EPS = 5"
  by (simp_all add: fsub_def DOLFIN_EPS_value round_double_unfold)

lemma float_eval:
  "fadd 1 1 = 2" "fadd 1 0 = 1" "fadd 2 1 = 3" "fadd 3 1 = 4" "fadd 4 1 = 5" "fadd 5 1 = 6"
  "fadd 5 0 = 5"
  "fsub 1 1 = 0" "fsub 2 1 = 1" "fsub 5 4 = 1" "fsub 5 5 = 0"
  "fsub 1 DOLFIN_EPS < 1" "fsub 2 DOLFIN_EPS < 2" "\<not> fsub 5 DOLFIN_EPS < 5"
  by (simp_all add: end_time_minus_DOLFIN_EPS) (simp_all add: fadd_def fsub_def round_double_unfold)

section \<open>Properties of the fixed point iteration\<close>

lemma record_events_simps:
  "s_log (record_events evs s) = s_log s @ evs"
  "s_world (record_events evs s) = s_world s"
  "s_t0 (record_events evs s) = s_t0 s"
  "s_t1 (record_events evs s) = s_t1 s"
  "s_dt (record_events evs s) = s_dt s"
  "s_at_end (record_events evs s) = s_at_end s"
  "s_integrated_goal_functional (record_events evs s) = s_integrated_goal_functional s"
  "s_old_goal_functional (record_events evs s) = s_old_goal_functional s"
  "s_goal_functional (record_events evs s) = s_goal_functional s"
  "s_U_S0 (record_events evs s) = s_U_S0 s"
  "s_U_M (record_events evs s) = s_U_M s"
  "s_iter (record_events evs s) = s_iter s"
  "s_timestep_counter (record_events evs s) = s_timestep_counter s"
  "s_num_dofs_FSM (record_events evs s) = s_num_dofs_FSM s"
  by (simp_all add: record_events_def)

lemma fsi_pass_frame:
  "s_t0 (after_pass (fsi_pass c p s)) = s_t0 s"
  "s_t1 (after_pass (fsi_pass c p s)) = s_t1 s"
  "s_dt (after_pass (fsi_pass c p s)) = s_dt s"
  "s_at_end (after_pass (fsi_pass c p s)) = s_at_end s"
  "s_integrated_goal_functional (after_pass (fsi_pass c p s)) = s_integrated_goal_functional s"
  "s_old_goal_functional (after_pass (fsi_pass c p s)) = s_old_goal_functional s"
  "s_goal_functional (after_pass (fsi_pass c p s)) = s_goal_functional s"
  "s_iter (after_pass (fsi_pass c p s)) = s_iter s"
  "s_timestep_counter (after_pass (fsi_pass c p s)) = s_timestep_counter s"
  "s_num_dofs_FSM (after_pass (fsi_pass c p s)) = s_num_dofs_FSM s"
  by (simp_all add: fsi_pass_def Let_def record_events_def split: prod.splits sum.splits)

lemma fsi_pass_snapshot:
  assumes "fsi_pass c p s = Inr ((increment, u_F, p_F, U_S, P_S), s1)"
  shows "s_U_S0 s1 = U_S" and "\<exists>d. axpy (-1) U_S (s_U_S0 s) = Inr d \<and> increment = norm_l2 d"
  using assms
  by (auto simp: fsi_pass_def Let_def record_events_def split: prod.splits if_splits sum.splits)

lemma fsi_pass_structure:
  assumes "\<forall>dt w. fst (fst (S_step c dt w)) = u"
    and "fsi_pass c p s = Inr ((increment, u_F, p_F, U_S, P_S), s1)"
  shows "U_S = u"
  using assms
  by (auto simp: fsi_pass_def Let_def split: prod.splits sum.splits) (metis fst_conv)

lemma fsi_loop_never_converging:
  assumes "int n = p_maximum_iterations p"
  shows "i < n \<Longrightarrow>
     (\<forall>k < n - i. fails_to_converge itertol (fsi_pass c p ((pass_state c p itertol i k s)\<lparr>s_iter := i + k\<rparr>)))
     \<Longrightarrow> fsi_loop c p itertol [i..<n] s =
           Raise (FSI_not_converged (p_maximum_iterations p))
             (after_pass (fsi_pass c p ((pass_state c p itertol i (n - i - 1) s)\<lparr>s_iter := n - 1\<rparr>)))"
proof (induction "n - i" arbitrary: i s)
  case 0
  then show ?case by simp
next
  case (Suc d)
  from Suc.prems(2)[rule_format, of 0] Suc.prems(1)
  have "fails_to_converge itertol (fsi_pass c p (s\<lparr>s_iter := i\<rparr>))" by simp
  then obtain increment flds s1 where
    fp: "fsi_pass c p (s\<lparr>s_iter := i\<rparr>) = Inr ((increment, flds), s1)" and nc: "\<not> increment < itertol"
    by (cases "fsi_pass c p (s\<lparr>s_iter := i\<rparr>)") auto
  have upt: "[i..<n] = i # [Suc i..<n]" using Suc.prems(1) by (simp add: upt_conv_Cons)
  show ?case
  proof (cases "Suc i = n")
    case True
    then have "int i = p_maximum_iterations p - 1" using assms by simp
    moreover from True have "n - 1 = i" "n - i - 1 = 0" by simp_all
    ultimately show ?thesis using fp nc True upt by simp
  next
    case False
    then have lt: "Suc i < n" using Suc.prems(1) by simp
    have ne: "int i \<noteq> p_maximum_iterations p - 1" using assms False by linarith
    let ?s2 = "record_events [IncrementInfo increment itertol (i + 1)] s1"
    have d: "d = n - Suc i" using Suc.hyps(2) by simp
    have hyp: "\<forall>k < n - Suc i. fails_to_converge itertol
                 (fsi_pass c p ((pass_state c p itertol (Suc i) k ?s2)\<lparr>s_iter := Suc i + k\<rparr>))"
    proof (intro allI impI)
      fix k assume "k < n - Suc i"
      then have "Suc k < n - i" by simp
      from Suc.prems(2)[rule_format, OF this] show
        "fails_to_converge itertol (fsi_pass c p ((pass_state c p itertol (Suc i) k ?s2)\<lparr>s_iter := Suc i + k\<rparr>))"
        by (simp add: fp)
    qed
    from Suc.hyps(1)[OF d lt hyp]
    have "fsi_loop c p itertol [Suc i..<n] ?s2 =
           Raise (FSI_not_converged (p_maximum_iterations p))
             (after_pass (fsi_pass c p ((pass_state c p itertol (Suc i) (n - Suc i - 1) ?s2)\<lparr>s_iter := n - 1\<rparr>)))" .
    moreover have "pass_state c p itertol i (n - i - 1) s = pass_state c p itertol (Suc i) (n - Suc i - 1) ?s2"
    proof -
      from lt have e: "n - i - 1 = Suc (n - Suc i - 1)" by simp
      show ?thesis unfolding e by (simp add: fp)
    qed
    ultimately show ?thesis using fp nc ne upt by simp
  qed
qed

text \<open>
  The fixed point iteration with \<open>maximum_iterations \<ge> 1\<close>. Let every pass end without
  error and with an increment that is not below \<open>itertol\<close>. Then the iteration raises
  \<open>RuntimeError\<close>, in the pass in which \<open>iter = maximum_iterations - 1\<close>, after exactly
  \<open>maximum_iterations\<close> passes, and when this happens in a time step the time-stepping loop
  ends with that error: there is no retry.
\<close>
theorem coupling_fails_at_maximum_iterations:
  assumes "1 \<le> p_maximum_iterations p"
    and "\<forall>k < nat (p_maximum_iterations p). fails_to_converge itertol (next_pass c p itertol k s)"
  shows "\<exists>s'. fsi_iteration c p itertol s = Raise (FSI_not_converged (p_maximum_iterations p)) s'
            \<and> s' = after_pass (next_pass c p itertol (nat (p_maximum_iterations p) - 1) s)
            \<and> int (s_iter s') + 1 = p_maximum_iterations p
            \<and> (\<forall>T st s0. record_events [TimeStepInfo (s_t1 s0) T (s_dt s0)] s0 = s
                   \<and> compute_itertol c (s_world s0) p (s_dt s0) (s_t1 s0) = itertol
                 \<longrightarrow> time_loop c p T st s0 = Some (Inl (FSI_not_converged (p_maximum_iterations p)), s'))"
proof -
  let ?n = "nat (p_maximum_iterations p)"
  let ?s' = "after_pass (next_pass c p itertol (?n - 1) s)"
  have n: "int ?n = p_maximum_iterations p" "0 < ?n" using assms(1) by simp_all
  have hyp: "\<forall>k < ?n - 0. fails_to_converge itertol
               (fsi_pass c p ((pass_state c p itertol 0 k s)\<lparr>s_iter := 0 + k\<rparr>))"
    using assms(2) by (simp add: next_pass_def)
  from fsi_loop_never_converging[OF n(1) n(2) hyp]
  have r: "fsi_iteration c p itertol s = Raise (FSI_not_converged (p_maximum_iterations p)) ?s'"
    by (simp add: fsi_iteration_def next_pass_def)
  have "s_iter ?s' = ?n - 1"
    by (simp add: next_pass_def fsi_pass_frame)
  with n have it: "int (s_iter ?s') + 1 = p_maximum_iterations p" by simp
  have tl: "\<forall>T st s0. record_events [TimeStepInfo (s_t1 s0) T (s_dt s0)] s0 = s
                   \<and> compute_itertol c (s_world s0) p (s_dt s0) (s_t1 s0) = itertol
                 \<longrightarrow> time_loop c p T st s0 = Some (Inl (FSI_not_converged (p_maximum_iterations p)), ?s')"
  proof (intro allI impI)
    fix T st s0
    assume a: "record_events [TimeStepInfo (s_t1 s0) T (s_dt s0)] s0 = s
                   \<and> compute_itertol c (s_world s0) p (s_dt s0) (s_t1 s0) = itertol"
    then have e1: "record_events [TimeStepInfo (s_t1 s0) T (s_dt s0)] s0 = s"
      and e2: "compute_itertol c (s_world s0) p (s_dt s0) (s_t1 s0) = itertol" by simp_all
    have e3: "compute_itertol c (s_world s) p (s_dt s) (s_t1 s) = itertol"
      using e2 by (simp add: e1[symmetric] record_events_simps)
    have "time_step c p T s0 = Inl (FSI_not_converged (p_maximum_iterations p), ?s')"
      unfolding time_step_def Let_def e1 e3 r by simp
    then show "time_loop c p T st s0 = Some (Inl (FSI_not_converged (p_maximum_iterations p)), ?s')"
      by (subst time_loop.simps) simp
  qed
  from r it tl show ?thesis by blast
qed

lemma stub_eval:
  "axpy (-1) [1] [0] = Inr [-1]" "axpy (-1) [0] [1] = Inr [1]"
  "axpy (-1) [1] [1] = Inr [0]" "axpy (-1) [0] [0] = Inr [0]"
  "norm_l2 [-1] = 1" "norm_l2 [1] = 1" "norm_l2 [0] = 0"
  by (simp_all add: norm_l2_def axpy_def)

text \<open>The structure displacement alternates between \<open>[1]\<close> and \<open>[0]\<close>; with
  \<open>maximum_iterations = 3\<close> the error is raised in the third pass.\<close>
theorem coupling_fails_at_maximum_iterations_witness:
  "\<exists>s'. fsi_iteration (stub_subproblems oscillating 2 1 7) (stub_parameters (1/2) True True) (1/2)
            (record_events [TimeStepInfo 1 2 1] (entered [0] 1))
          = Raise (FSI_not_converged 3) s'
       \<and> s_iter s' = 2 \<and> s_world s' = 3"
proof -
  let ?c = "stub_subproblems oscillating 2 1 7" and ?p = "stub_parameters (1/2) True True"
  let ?s = "record_events [TimeStepInfo 1 2 1] (entered [0] 1)"
  have m: "p_maximum_iterations ?p = 3" by (simp add: stub_parameters_def)
  have a: "1 \<le> p_maximum_iterations ?p" by (simp add: m)
  have p0: "fails_to_converge (1/2) (next_pass ?c ?p (1/2) 0 ?s)"
    by (simp add: next_pass_def fsi_pass_def entered_def record_events_def
        stub_subproblems_def stub_parameters_def oscillating_def Let_def stub_eval)
  have p1: "fails_to_converge (1/2) (next_pass ?c ?p (1/2) 1 ?s)"
    by (simp add: next_pass_def fsi_pass_def entered_def record_events_def
        stub_subproblems_def stub_parameters_def oscillating_def Let_def stub_eval)
  have p2: "fails_to_converge (1/2) (next_pass ?c ?p (1/2) 2 ?s)"
    by (simp add: next_pass_def fsi_pass_def entered_def record_events_def
        stub_subproblems_def stub_parameters_def oscillating_def Let_def stub_eval numeral_2_eq_2)
  have b: "\<forall>k < nat (p_maximum_iterations ?p). fails_to_converge (1/2) (next_pass ?c ?p (1/2) k ?s)"
  proof (intro allI impI)
    fix k assume "k < nat (p_maximum_iterations ?p)"
    then have "k = 0 \<or> k = 1 \<or> k = 2" unfolding m by auto
    with p0 p1 p2 show "fails_to_converge (1/2) (next_pass ?c ?p (1/2) k ?s)" by auto
  qed
  from coupling_fails_at_maximum_iterations[OF a b] obtain s' where
    r: "fsi_iteration ?c ?p (1/2) ?s = Raise (FSI_not_converged (p_maximum_iterations ?p)) s'"
    and s': "s' = after_pass (next_pass ?c ?p (1/2) (nat (p_maximum_iterations ?p) - 1) ?s)"
    and it: "int (s_iter s') + 1 = p_maximum_iterations ?p" by blast
  from it have "s_iter s' = 2" unfolding m by simp
  moreover have "s_world s' = 3"
    unfolding s' m
    by (simp add: next_pass_def fsi_pass_def entered_def record_events_def
        stub_subproblems_def stub_parameters_def oscillating_def Let_def stub_eval numeral_2_eq_2)
  ultimately show ?thesis using r unfolding m by blast
qed

text \<open>
  Claim C2 at \<open>maximum_iterations = 0\<close>, with a structure displacement that alternates between
  \<open>[1]\<close> and \<open>[0]\<close>. The call of \<open>solve_primal\<close> ends with the \<open>TypeError\<close> of line 54. The loop
  of lines 94--166 itself, entered for the first time step, has an empty range: no pass
  runs, the check of line 160 is never reached and nothing is raised. The time steps go on
  without convergence, and after the last one the read of \<open>goal_functional\<close> at line 207
  raises \<open>UnboundLocalError\<close>.
\<close>
theorem zero_maximum_iterations_never_fail:
  "solve_primal (stub_subproblems oscillating 2 1 7)
      ((stub_parameters (1/2) True True)\<lparr>p_maximum_iterations := 0\<rparr>) 0 1
     = Some (Inl (TypeError 3 2), 0, [])
   \<and> fsi_iteration (stub_subproblems oscillating 2 1 7)
        ((stub_parameters (1/2) True True)\<lparr>p_maximum_iterations := 0\<rparr>) (1/2)
        (record_events [TimeStepInfo 1 2 1] (entered [0] 1))
      = Continue (record_events [TimeStepInfo 1 2 1] (entered [0] 1))
   \<and> map_option (map_prod id s_log)
        (time_loop (stub_subproblems oscillating 2 1 7)
           ((stub_parameters (1/2) True True)\<lparr>p_maximum_iterations := 0\<rparr>) 2 1 (entered [0] 1))
      = Some (Inl (UnboundLocalError ''goal_functional''),
              [TimeStepInfo 1 2 1, WritePrimalData ([0], [0], [1], [0], [0]) 1,
               TimeStepInfo 2 2 1, WritePrimalData ([0], [0], [1], [0], [0]) 2,
               SaveDofs 5 2])"
  by (simp add: solve_primal_raises fsi_iteration_def time_loop.simps time_step_def end_of_step_def
      next_interval_def finish_def entered_def record_events_def float_eval
      end_time_minus_DOLFIN_EPS stub_subproblems_def oscillating_def stub_parameters_def Let_def)

lemma norm_l2_axpy_self: "\<exists>d. axpy (-1) u u = Inr d \<and> norm_l2 d = 0"
proof -
  have "(\<Sum>x\<leftarrow>map2 (\<lambda>yi xi. yi + - 1 * xi) u u. x * x) = 0"
    by (induction u) simp_all
  then show ?thesis by (simp add: norm_l2_def axpy_def)
qed

lemma converged_frame:
  "s_U_S0 (converged c increment itertol i flds s) = s_U_S0 s"
  "s_iter (converged c increment itertol i flds s) = s_iter s"
  "s_t0 (converged c increment itertol i flds s) = s_t0 s"
  "s_t1 (converged c increment itertol i flds s) = s_t1 s"
  "s_dt (converged c increment itertol i flds s) = s_dt s"
  "s_at_end (converged c increment itertol i flds s) = s_at_end s"
  "s_world (converged c increment itertol i flds s) = s_world s"
  "s_timestep_counter (converged c increment itertol i flds s) = s_timestep_counter s"
  "s_num_dofs_FSM (converged c increment itertol i flds s) = s_num_dofs_FSM s"
  by (simp_all add: converged_def Let_def record_events_def split: prod.splits)

lemma fsi_loop_snapshot:
  assumes "\<forall>dt w. fst (fst (S_step c dt w)) = u"
  shows "is \<noteq> [] \<Longrightarrow> fsi_loop c p itertol is s = Break s' \<or> fsi_loop c p itertol is s = Continue s'
           \<Longrightarrow> s_U_S0 s' = u"
proof (induction "is" arbitrary: s)
  case Nil
  then show ?case by simp
next
  case (Cons i rest)
  from Cons.prems(2) obtain increment u_F p_F U_S P_S s1 where
    fp: "fsi_pass c p (s\<lparr>s_iter := i\<rparr>) = Inr ((increment, u_F, p_F, U_S, P_S), s1)"
    by (cases "fsi_pass c p (s\<lparr>s_iter := i\<rparr>)") auto
  from fsi_pass_structure[OF assms fp] have us: "U_S = u" .
  from fsi_pass_snapshot(1)[OF fp] us have s1: "s_U_S0 s1 = u" by simp
  show ?case
  proof (cases rest)
    case Nil
    with fp s1 Cons.prems(2) show ?thesis
      by (auto simp: converged_frame record_events_simps split: if_splits)
  next
    case (Cons j rest')
    then have ne: "rest \<noteq> []" by simp
    show ?thesis
    proof (cases "increment < itertol")
      case True
      with fp s1 Cons.prems(2) show ?thesis by (auto simp: converged_frame)
    next
      case False
      with fp Cons.prems(2) have
        "fsi_loop c p itertol rest (record_events [IncrementInfo increment itertol (i + 1)] s1) = Break s'
         \<or> fsi_loop c p itertol rest (record_events [IncrementInfo increment itertol (i + 1)] s1) = Continue s'"
        by (auto split: if_splits)
      from Cons.IH[OF ne this] show ?thesis .
    qed
  qed
qed

lemma end_of_step_frame:
  "s_U_S0 (end_of_step c p s) = s_U_S0 s"
  "s_t0 (end_of_step c p s) = s_t0 s"
  "s_t1 (end_of_step c p s) = s_t1 s"
  "s_dt (end_of_step c p s) = s_dt s"
  "s_at_end (end_of_step c p s) = s_at_end s"
  "s_integrated_goal_functional (end_of_step c p s) = s_integrated_goal_functional s"
  "s_old_goal_functional (end_of_step c p s) = s_old_goal_functional s"
  "s_goal_functional (end_of_step c p s) = s_goal_functional s"
  "s_num_dofs_FSM (end_of_step c p s) = s_num_dofs_FSM s"
  "s_timestep_counter (end_of_step c p s) = s_timestep_counter s + 1"
  by (simp_all add: end_of_step_def Let_def record_events_def)

lemma next_interval_frame:
  "s_U_S0 (next_interval c p T st s) = s_U_S0 s"
  "s_integrated_goal_functional (next_interval c p T st s) = s_integrated_goal_functional s"
  "s_old_goal_functional (next_interval c p T st s) = s_old_goal_functional s"
  "s_goal_functional (next_interval c p T st s) = s_goal_functional s"
  "s_world (next_interval c p T st s) = s_world s"
  "s_log (next_interval c p T st s) = s_log s"
  "s_num_dofs_FSM (next_interval c p T st s) = s_num_dofs_FSM s"
  "s_timestep_counter (next_interval c p T st s) = s_timestep_counter s"
  by (simp_all add: next_interval_def Let_def split: prod.splits)

lemma time_step_snapshot:
  assumes "\<forall>dt w. fst (fst (S_step c dt w)) = u" and "1 \<le> p_maximum_iterations p"
    and "time_step c p T s = Inr s1"
  shows "s_U_S0 s1 = u"
proof -
  let ?s0 = "record_events [TimeStepInfo (s_t1 s) T (s_dt s)] s"
  let ?tol = "compute_itertol c (s_world ?s0) p (s_dt ?s0) (s_t1 ?s0)"
  have ne: "[0..<nat (p_maximum_iterations p)] \<noteq> []" using assms(2) by simp
  from assms(3) obtain s' where
    o: "fsi_iteration c p ?tol ?s0 = Break s' \<or> fsi_iteration c p ?tol ?s0 = Continue s'"
    and e: "s1 = end_of_step c p s'"
    by (cases "fsi_iteration c p ?tol ?s0") (auto simp: time_step_def Let_def)
  from fsi_loop_snapshot[OF assms(1) ne, of p ?tol ?s0 s'] o
  have "s_U_S0 s' = u" by (simp add: fsi_iteration_def)
  with e show ?thesis by (simp add: end_of_step_frame)
qed

text \<open>
  The fixed point iteration with a structure solver that returns the same displacement \<open>u\<close>
  whatever its input, with \<open>itertol > 0\<close> and \<open>maximum_iterations \<ge> 1\<close>. A time step that is
  entered with the snapshot \<open>U_S0\<close> equal to \<open>u\<close> converges in its first pass: the
  increment is 0, \<open>iter\<close> is 0 and the iteration count saved is 1. Every completed time step
  leaves the snapshot equal to \<open>u\<close>.
\<close>
theorem noop_structure_solver_converges_at_once:
  assumes "\<forall>dt w. fst (fst (S_step c dt w)) = u" and "s_U_S0 s = u"
    and "0 < itertol" and "1 \<le> p_maximum_iterations p"
  shows "\<exists>s'. fsi_iteration c p itertol s = Break s'
            \<and> (\<exists>flds s1. fsi_pass c p (s\<lparr>s_iter := 0\<rparr>) = Inr ((0, flds), s1))
            \<and> s_iter s' = 0
            \<and> s_U_S0 s' = u
            \<and> (\<exists>plot goal integrated.
                  s_log s' = s_log s @ plot @
                    [ConvergedInfo 0 itertol 1, SaveNoFSIIter (s_t1 s) 1,
                     SaveGoalFunctional (s_t1 s) goal integrated])
            \<and> (\<forall>T st s0 s1. time_step c p T s0 = Inr s1 \<longrightarrow> s_U_S0 (next_interval c p T st s1) = u)"
proof -
  obtain u_F p_F w1 where f1: "F_step c (s_dt s) (s_world s) = ((u_F, p_F), w1)"
    by (cases "F_step c (s_dt s) (s_world s)") auto
  obtain Sigma_F w2 where f2: "F_compute_fluid_stress c u_F p_F (s_U_M s) w1 = (Sigma_F, w2)"
    by (cases "F_compute_fluid_stress c u_F p_F (s_U_M s) w1") auto
  obtain U_S P_S w4 where f3: "S_step c (s_dt s) (S_update_fluid_stress c Sigma_F w2) = ((U_S, P_S), w4)"
    by (cases "S_step c (s_dt s) (S_update_fluid_stress c Sigma_F w2)") auto
  obtain U_M w6 where f4: "M_step c (s_dt s) (M_update_structure_displacement c U_S w4) = (U_M, w6)"
    by (cases "M_step c (s_dt s) (M_update_structure_displacement c U_S w4)") auto
  from assms(1)[rule_format, of "s_dt s" "S_update_fluid_stress c Sigma_F w2"] f3
  have us: "U_S = u" by simp
  from norm_l2_axpy_self[of u] obtain d where d: "axpy (-1) u u = Inr d" "norm_l2 d = 0" by blast
  obtain s1 where
    fp: "fsi_pass c p (s\<lparr>s_iter := 0\<rparr>) = Inr ((0, u_F, p_F, U_S, P_S), s1)"
    using f1 f2 f3 f4 d by (simp add: fsi_pass_def us assms(2) Let_def)
  from fsi_pass_snapshot(1)[OF fp] us have s1u: "s_U_S0 s1 = u" by simp
  have upt: "[0..<nat (p_maximum_iterations p)] = 0 # [Suc 0..<nat (p_maximum_iterations p)]"
    using assms(4) by (simp add: upt_conv_Cons)
  let ?s' = "converged c 0 itertol 0 (u_F, p_F, U_S, P_S) s1"
  have r: "fsi_iteration c p itertol s = Break ?s'"
    using fp assms(3) by (simp add: fsi_iteration_def upt)
  have "s_iter s1 = 0"
    using fsi_pass_frame(8)[of c p "s\<lparr>s_iter := 0\<rparr>"] by (simp add: fp)
  then have it: "s_iter ?s' = 0" by (simp add: converged_frame)
  have u': "s_U_S0 ?s' = u" using s1u by (simp add: converged_frame)
  have "\<exists>plot. s_log s1 = s_log s @ plot" "s_t1 s1 = s_t1 s"
    using fp by (auto simp: fsi_pass_def Let_def record_events_def split: prod.splits if_splits sum.splits)
  then have lg: "\<exists>plot goal integrated.
                  s_log ?s' = s_log s @ plot @
                    [ConvergedInfo 0 itertol 1, SaveNoFSIIter (s_t1 s) 1,
                     SaveGoalFunctional (s_t1 s) goal integrated]"
    by (auto simp: converged_def Let_def record_events_def)
  have nx: "\<forall>T st s0 s1. time_step c p T s0 = Inr s1 \<longrightarrow> s_U_S0 (next_interval c p T st s1) = u"
    using time_step_snapshot[OF assms(1) assms(4)] by (simp add: next_interval_frame)
  from r fp it u' lg nx show ?thesis by blast
qed

text \<open>The structure stub returns the displacement \<open>[1]\<close>, which is also the snapshot.\<close>
theorem noop_structure_solver_converges_at_once_witness:
  "\<exists>s'. fsi_iteration (stub_subproblems (steady [1]) 2 1 7) (stub_parameters (1/2) True True) (1/2)
            (record_events [TimeStepInfo 1 2 1] (entered [1] 1))
          = Break s'
       \<and> s_iter s' = 0 \<and> s_U_S0 s' = [1]"
proof -
  let ?c = "stub_subproblems (steady [1]) 2 1 7" and ?p = "stub_parameters (1/2) True True"
  let ?s = "record_events [TimeStepInfo 1 2 1] (entered [1] 1)"
  have a: "\<forall>dt w. fst (fst (S_step ?c dt w)) = [1]" by (simp add: stub_subproblems_def steady_def)
  have b: "s_U_S0 ?s = [1]"
    by (simp add: entered_def record_events_def)
  have c: "(0::real) < 1/2" by simp
  have d: "1 \<le> p_maximum_iterations ?p" by (simp add: stub_parameters_def)
  from noop_structure_solver_converges_at_once[OF a b c d] show ?thesis by blast
qed


section \<open>Properties of the time-stepping loop\<close>






text \<open>
  Claim C6 for a uniform time step. The call of \<open>solve_primal\<close> ends with the \<open>TypeError\<close> of
  line 54, before the first time step. The time stepping of lines 72--75 and 192--197
  itself, with the initial time step \<open>dt = 1\<close>:

  \<^item> with \<open>T = 1\<close>, the first time step ends at \<open>t1 = dt = T\<close> with \<open>at_end\<close> still false (line
    75 sets it without looking at \<open>t1\<close>), and the next interval is \<open>t0 = t1 = 1\<close>, \<open>dt = 0\<close>;

  \<^item> with \<open>T = 5\<close>, the interval after \<open>(3, 4)\<close> is \<open>(4, 5)\<close> with \<open>at_end\<close> false, since
    \<open>T - DOLFIN_EPS\<close> is \<open>T\<close> in floats; the one after it is \<open>t0 = t1 = 5\<close>, \<open>dt = 0\<close>, again
    with \<open>at_end\<close> false, and so is every one that follows.
\<close>
theorem uniform_time_steps_repeat_end_time:
  "solve_primal (stub_subproblems (steady [0]) 1 1 7) (stub_parameters (1/2) True True) 0 1
     = Some (Inl (TypeError 3 2), 0, [])
   \<and> (\<exists>s1. time_step (stub_subproblems (steady [0]) 1 1 7) (stub_parameters (1/2) True True) 1
              (entered [0] 1) = Inr s1
          \<and> times s1 = (0, 1, 1, False)
          \<and> times (next_interval (stub_subproblems (steady [0]) 1 1 7)
                     (stub_parameters (1/2) True True) 1 1 s1) = (1, 1, 0, True))
   \<and> times (next_interval (stub_subproblems (steady [0]) 5 1 7) (stub_parameters (1/2) True True) 5 1
        (at_times 3 4 1 False (entered [0] 1))) = (4, 5, 1, False)
   \<and> times (next_interval (stub_subproblems (steady [0]) 5 1 7) (stub_parameters (1/2) True True) 5 1
        (at_times 4 5 1 False (entered [0] 1))) = (5, 5, 0, False)
   \<and> times (next_interval (stub_subproblems (steady [0]) 5 1 7) (stub_parameters (1/2) True True) 5 1
        (at_times 5 5 0 False (entered [0] 1))) = (5, 5, 0, False)"
  by (simp add: solve_primal_raises time_step_def fsi_iteration_def fsi_pass_def converged_def
      end_of_step_def next_interval_def times_def at_times_def entered_def record_events_def
      stub_subproblems_def steady_def stub_parameters_def Let_def stub_eval upt_conv_Cons float_eval
      end_time_minus_DOLFIN_EPS)


text \<open>What the loop accumulates when it does end: two time steps of size 1 up to \<open>T = 2\<close>
  with the goal functional constantly 1. The first interval is integrated between 0 and 1
  (line 79 takes the functional to be 0 at \<open>t = 0\<close>), so the integral is \<open>3/2\<close>; the value
  returned is the functional of the last time step.\<close>

lemma two_unit_time_steps:
  "map_option (map_prod id (last \<circ> s_log))
     (time_loop (stub_subproblems (steady [0]) 2 1 1) (stub_parameters (1/2) True True) 2 1
        (entered [0] 1))
     = Some (Inr 1, SaveGoalFunctionalFinal 1 (3/2))"
  by (simp add: time_loop.simps time_step_def fsi_iteration_def fsi_pass_def converged_def
      end_of_step_def next_interval_def finish_def entered_def record_events_def
      stub_subproblems_def steady_def stub_parameters_def Let_def stub_eval upt_conv_Cons float_eval
      end_time_minus_DOLFIN_EPS fadd_def fmul_def round_double_unfold)

section \<open>Properties of the mesh displacement transfer\<close>

lemma for_range_append:
  "for_range (xs @ [k]) body a =
     (case for_range xs body a of Inl e \<Rightarrow> Inl e | Inr a' \<Rightarrow> body k a')"
  by (induction xs arbitrary: a) (auto split: sum.splits)

lemma for_range_rule:
  assumes "I 0 a"
    and "\<And>k b. k < n \<Longrightarrow> I k b \<Longrightarrow> \<exists>b'. body k b = Inr b' \<and> I (Suc k) b'"
  shows "\<exists>a'. for_range [0..<n] body a = Inr a' \<and> I n a'"
  using assms(2)
proof (induction n)
  case 0
  then show ?case using assms(1) by simp
next
  case (Suc n)
  from Suc.IH Suc.prems obtain a1 where a1: "for_range [0..<n] body a = Inr a1" "I n a1"
    by (meson less_Suc_eq)
  from Suc.prems[of n a1] a1(2) obtain a2 where "body n a1 = Inr a2" "I (Suc n) a2" by auto
  with a1 show ?case by (simp add: for_range_append)
qed

lemma index_bound:
  fixes i j N d :: nat
  assumes "i < N" and "j < d"
  shows "j * N + i < d * N"
proof -
  have "j * N + i < j * N + N" using assms(1) by simp
  also have "\<dots> = Suc j * N" by simp
  also have "\<dots> \<le> d * N" using assms(2) by (intro mult_le_mono1) simp
  finally show ?thesis .
qed

lemma index_inj:
  fixes i j i' j' N :: nat
  assumes "i < N" and "i' < N" and "j * N + i = j' * N + i'"
  shows "i = i' \<and> j = j'"
proof -
  from assms(3) have "(j * N + i) mod N = (j' * N + i') mod N" by simp
  then have i: "i = i'" using assms(1,2) by simp
  from assms(3) i have "j * N = j' * N" by simp
  with assms(1) have "j = j'" by simp
  with i show ?thesis by simp
qed

lemma has_shape_nth:
  "has_shape N d a \<Longrightarrow> length a = N \<and> (\<forall>i < N. length (a ! i) = d)"
  by (auto simp: has_shape_def list_all_length)

lemma has_shapeI:
  "length a = N \<Longrightarrow> (\<forall>i < N. length (a ! i) = d) \<Longrightarrow> has_shape N d a"
  by (auto simp: has_shape_def list_all_length)

lemma set_x1_step:
  assumes "has_shape N d X" and "d * N \<le> length dofs" and "i < N" and "j < d"
    and "x1_inv X dofs N d x1 i j a"
  shows "\<exists>a'. set_x1 X dofs N i j a = Inr a' \<and> x1_inv X dofs N d x1 i (Suc j) a'"
proof -
  from assms(5) have sh: "has_shape N d a"
    and en: "\<forall>i' < N. \<forall>j' < d. a ! i' ! j' =
          (if i' < i \<or> (i' = i \<and> j' < j) then X ! i' ! j' + dofs ! (j' * N + i') else x1 ! i' ! j')"
    by (simp_all add: x1_inv_def)
  note la = has_shape_nth[OF sh] and lX = has_shape_nth[OF assms(1)]
  have ib: "j * N + i < length dofs" using index_bound[OF assms(3,4)] assms(2) by simp
  let ?a' = "a[i := (a ! i)[j := X ! i ! j + dofs ! (j * N + i)]]"
  have ok: "set_x1 X dofs N i j a = Inr ?a'"
    using la lX ib assms(3,4) by (simp add: set_x1_def)
  have sh': "has_shape N d ?a'"
    using la assms(3) by (intro has_shapeI) (auto simp: nth_list_update)
  have en': "\<forall>i' < N. \<forall>j' < d. ?a' ! i' ! j' =
          (if i' < i \<or> (i' = i \<and> j' < Suc j) then X ! i' ! j' + dofs ! (j' * N + i') else x1 ! i' ! j')"
  proof (intro allI impI)
    fix i' j' assume b: "i' < N" "j' < d"
    show "?a' ! i' ! j' =
          (if i' < i \<or> (i' = i \<and> j' < Suc j) then X ! i' ! j' + dofs ! (j' * N + i') else x1 ! i' ! j')"
    proof (cases "i' = i")
      case True
      show ?thesis
      proof (cases "j' = j")
        case True
        with \<open>i' = i\<close> la assms(3,4) show ?thesis by simp
      next
        case False
        with \<open>i' = i\<close> la assms(3,4) b en[rule_format, OF b] show ?thesis
          by (auto simp: less_Suc_eq)
      qed
    next
      case False
      with la b en[rule_format, OF b] show ?thesis by simp
    qed
  qed
  from ok sh' en' show ?thesis by (simp add: x1_inv_def)
qed

lemma x1_row_loop:
  assumes "has_shape N d X" and "d * N \<le> length dofs" and "i < N"
    and "x1_inv X dofs N d x1 i 0 a"
  shows "\<exists>a'. for_range [0..<d] (\<lambda>j. set_x1 X dofs N i j) a = Inr a' \<and> x1_inv X dofs N d x1 (Suc i) 0 a'"
proof -
  from for_range_rule[where I = "x1_inv X dofs N d x1 i" and n = d and a = a
      and body = "\<lambda>j. set_x1 X dofs N i j", OF assms(4)]
    set_x1_step[OF assms(1,2,3)]
  obtain a' where a': "for_range [0..<d] (\<lambda>j. set_x1 X dofs N i j) a = Inr a'"
    "x1_inv X dofs N d x1 i d a'" by blast
  from a'(2) have "x1_inv X dofs N d x1 (Suc i) 0 a'"
    by (auto simp: x1_inv_def less_Suc_eq)
  with a'(1) show ?thesis by blast
qed

lemma x1_loops:
  assumes "has_shape N d X" and "d * N \<le> length dofs" and "has_shape N d x1"
  shows "for_range [0..<N] (\<lambda>i. for_range [0..<d] (\<lambda>j. set_x1 X dofs N i j)) x1
           = Inr (displaced X dofs N d)"
proof -
  have i0: "x1_inv X dofs N d x1 0 0 x1" using assms(3) by (simp add: x1_inv_def)
  from for_range_rule[where I = "\<lambda>i. x1_inv X dofs N d x1 i 0" and n = N and a = x1
      and body = "\<lambda>i. for_range [0..<d] (\<lambda>j. set_x1 X dofs N i j)", OF i0]
    x1_row_loop[OF assms(1,2)]
  obtain a' where a': "for_range [0..<N] (\<lambda>i. for_range [0..<d] (\<lambda>j. set_x1 X dofs N i j)) x1 = Inr a'"
    "x1_inv X dofs N d x1 N 0 a'" by blast
  from a'(2) have sh: "has_shape N d a'"
    and en: "\<forall>i' < N. \<forall>j' < d. a' ! i' ! j' = X ! i' ! j' + dofs ! (j' * N + i')"
    by (simp_all add: x1_inv_def)
  note la = has_shape_nth[OF sh]
  have "a' = displaced X dofs N d"
  proof (rule nth_equalityI)
    show "length a' = length (displaced X dofs N d)" using la by (simp add: displaced_def)
  next
    fix i assume "i < length a'"
    then have i: "i < N" using la by simp
    show "a' ! i = displaced X dofs N d ! i"
    proof (rule nth_equalityI)
      show "length (a' ! i) = length (displaced X dofs N d ! i)"
        using la i by (simp add: displaced_def)
    next
      fix j assume "j < length (a' ! i)"
      then have "j < d" using la i by simp
      with i en show "a' ! i ! j = displaced X dofs N d ! i ! j"
        by (simp add: displaced_def)
    qed
  qed
  with a'(1) show ?thesis by simp
qed


lemma set_wx_step:
  assumes "has_shape N d x1" and "has_shape N d x0" and "d * N \<le> length wv" and "i < N" and "j < d"
    and "wx_inv x1 x0 dt N d wv i j b"
  shows "\<exists>b'. set_wx x1 x0 dt N i j b = Inr b' \<and> wx_inv x1 x0 dt N d wv i (Suc j) b'"
proof -
  from assms(6) have lb: "length b = length wv"
    and hi: "\<forall>k. d * N \<le> k \<and> k < length wv \<longrightarrow> b ! k = wv ! k"
    and en: "\<forall>i' < N. \<forall>j' < d. b ! (j' * N + i') =
          (if i' < i \<or> (i' = i \<and> j' < j) then (x1 ! i' ! j' - x0 ! i' ! j') / dt
           else wv ! (j' * N + i'))"
    by (simp_all add: wx_inv_def)
  note l1 = has_shape_nth[OF assms(1)] and l0 = has_shape_nth[OF assms(2)]
  have ib: "j * N + i < d * N" by (rule index_bound[OF assms(4,5)])
  let ?b' = "b[j * N + i := (x1 ! i ! j - x0 ! i ! j) / dt]"
  have ok: "set_wx x1 x0 dt N i j b = Inr ?b'"
    using l1 l0 ib assms(3,4,5) lb by (simp add: set_wx_def)
  have lb': "length ?b' = length wv" using lb by simp
  have hi': "\<forall>k. d * N \<le> k \<and> k < length wv \<longrightarrow> ?b' ! k = wv ! k"
    using hi ib by (auto simp: nth_list_update)
  have en': "\<forall>i' < N. \<forall>j' < d. ?b' ! (j' * N + i') =
          (if i' < i \<or> (i' = i \<and> j' < Suc j) then (x1 ! i' ! j' - x0 ! i' ! j') / dt
           else wv ! (j' * N + i'))"
  proof (intro allI impI)
    fix i' j' assume b: "i' < N" "j' < d"
    show "?b' ! (j' * N + i') =
          (if i' < i \<or> (i' = i \<and> j' < Suc j) then (x1 ! i' ! j' - x0 ! i' ! j') / dt
           else wv ! (j' * N + i'))"
    proof (cases "j' * N + i' = j * N + i")
      case True
      from index_inj[OF b(1) assms(4) True] have "i' = i" "j' = j" by simp_all
      with ib assms(3) lb show ?thesis by simp
    next
      case False
      then have ne: "\<not> (i' = i \<and> j' = j)" by auto
      from False have "?b' ! (j' * N + i') = b ! (j' * N + i')" by simp
      with en[rule_format, OF b] ne show ?thesis by (auto simp: less_Suc_eq)
    qed
  qed
  from ok lb' hi' en' show ?thesis by (simp add: wx_inv_def)
qed

lemma wx_row_loop:
  assumes "has_shape N d x1" and "has_shape N d x0" and "d * N \<le> length wv" and "i < N"
    and "wx_inv x1 x0 dt N d wv i 0 b"
  shows "\<exists>b'. for_range [0..<d] (\<lambda>j. set_wx x1 x0 dt N i j) b = Inr b'
            \<and> wx_inv x1 x0 dt N d wv (Suc i) 0 b'"
proof -
  from for_range_rule[where I = "wx_inv x1 x0 dt N d wv i" and n = d and a = b
      and body = "\<lambda>j. set_wx x1 x0 dt N i j", OF assms(5)]
    set_wx_step[OF assms(1,2,3,4)]
  obtain b' where b': "for_range [0..<d] (\<lambda>j. set_wx x1 x0 dt N i j) b = Inr b'"
    "wx_inv x1 x0 dt N d wv i d b'" by blast
  from b'(2) have "wx_inv x1 x0 dt N d wv (Suc i) 0 b'"
    by (auto simp: wx_inv_def less_Suc_eq)
  with b'(1) show ?thesis by blast
qed

lemma wx_loops:
  assumes "has_shape N d x1" and "has_shape N d x0" and "d * N \<le> length wv"
  shows "\<exists>wx. for_range [0..<N] (\<lambda>i. for_range [0..<d] (\<lambda>j. set_wx x1 x0 dt N i j)) wv = Inr wx
     \<and> length wx = length wv
     \<and> (\<forall>i < N. \<forall>j < d. wx ! (j * N + i) = (x1 ! i ! j - x0 ! i ! j) / dt)
     \<and> (\<forall>k. d * N \<le> k \<and> k < length wv \<longrightarrow> wx ! k = wv ! k)"
proof -
  have i0: "wx_inv x1 x0 dt N d wv 0 0 wv" by (simp add: wx_inv_def)
  from for_range_rule[where I = "\<lambda>i. wx_inv x1 x0 dt N d wv i 0" and n = N and a = wv
      and body = "\<lambda>i. for_range [0..<d] (\<lambda>j. set_wx x1 x0 dt N i j)", OF i0]
    wx_row_loop[OF assms(1,2,3)]
  obtain wx where wx: "for_range [0..<N] (\<lambda>i. for_range [0..<d] (\<lambda>j. set_wx x1 x0 dt N i j)) wv = Inr wx"
    "wx_inv x1 x0 dt N d wv N 0 wx" by blast
  from wx(2) have "length wx = length wv"
    "\<forall>k. d * N \<le> k \<and> k < length wv \<longrightarrow> wx ! k = wv ! k"
    "\<forall>i < N. \<forall>j < d. wx ! (j * N + i) = (x1 ! i ! j - x0 ! i ! j) / dt"
    by (simp_all add: wx_inv_def)
  with wx(1) show ?thesis by blast
qed

lemma has_shape_iff: "has_shape N d x \<longleftrightarrow> map length x = replicate N d"
  by (auto simp: has_shape_def list_all_length list_eq_iff_nth_eq)

lemma smooth_shape:
  assumes "\<forall>x. map length (smoothing_pass x) = map length x" and "has_shape N d x"
  shows "has_shape N d (smooth smoothing_pass n x)"
proof -
  have "map length ((smoothing_pass ^^ n) x) = map length x"
    by (induction n) (simp_all add: assms(1))
  with assms(2) show ?thesis by (simp add: has_shape_iff smooth_def)
qed

lemma displaced_shape: "has_shape N d (displaced X dofs N d)"
  by (simp add: has_shape_iff displaced_def comp_def map_replicate_const)

text \<open>
  Claim C9. Let the three meshes of the fluid problem have \<open>N\<close> vertices in dimension \<open>d\<close>,
  let \<open>U_M\<close> and the mesh velocity \<open>w\<close> have at least \<open>d * N\<close> entries, and let the
  smoothing step keep the shape of the coordinate array. Then
  \<open>update_mesh_displacement(U_M, dt, num_smoothings)\<close> returns, and afterwards: the
  coordinates of \<open>omega_F1\<close> are the reference coordinates plus the displacement, smoothed
  \<open>num_smoothings\<close> times; the mesh velocity at entry \<open>j * N + i\<close> is the difference of the
  smoothed new coordinate and the coordinate of \<open>omega_F0\<close>, divided by \<open>dt\<close>; the reference
  mesh and \<open>omega_F0\<close> are as before; the calls made are \<open>smooth\<close>, then \<open>reassemble\<close>; and
  \<open>update_extra\<close> then copies the new coordinates to \<open>omega_F0\<close>. The quotient is the
  one of the reals, which is that of the code for \<open>dt \<noteq> 0\<close>.
\<close>
theorem mesh_displacement_transfer:
  assumes "has_shape N d (Omega_F F)" and "has_shape N d (omega_F0 F)" and "has_shape N d (omega_F1 F)"
    and "geometry_dim F = d" and "d * N \<le> length U_M"
    and "mesh_velocity_w F = Some wv" and "d * N \<le> length wv"
    and "dt \<noteq> 0" and "\<forall>x. map length (smoothing_pass x) = map length x"
  shows "\<exists>F' wx. update_mesh_displacement smoothing_pass F U_M dt n = Inr F'
     \<and> omega_F1 F' = (smoothing_pass ^^ n) (displaced (Omega_F F) U_M N d)
     \<and> mesh_velocity_w F' = Some wx \<and> length wx = length wv
     \<and> (\<forall>i < N. \<forall>j < d. wx ! (j * N + i) = (omega_F1 F' ! i ! j - omega_F0 F ! i ! j) / dt)
     \<and> (\<forall>k. d * N \<le> k \<and> k < length wv \<longrightarrow> wx ! k = wv ! k)
     \<and> omega_F0 F' = omega_F0 F \<and> Omega_F F' = Omega_F F \<and> geometry_dim F' = d
     \<and> fluid_calls F' = fluid_calls F @ [Smooth n, Reassemble]
     \<and> update_extra F' = Inr (F'\<lparr>omega_F0 := omega_F1 F'\<rparr>)"
proof -
  have N: "length (omega_F1 F) = N" using has_shape_nth[OF assms(3)] by simp
  let ?x1 = "displaced (Omega_F F) U_M N d"
  let ?x1s = "smooth smoothing_pass n ?x1"
  have l1: "for_range [0..<N] (\<lambda>i. for_range [0..<d] (\<lambda>j. set_x1 (Omega_F F) U_M N i j)) (omega_F1 F)
           = Inr ?x1"
    by (rule x1_loops[OF assms(1,5,3)])
  have sh: "has_shape N d ?x1s"
    by (rule smooth_shape[OF assms(9) displaced_shape])
  from wx_loops[OF sh assms(2,7), of dt] obtain wx where
    wx: "for_range [0..<N] (\<lambda>i. for_range [0..<d] (\<lambda>j. set_wx ?x1s (omega_F0 F) dt N i j)) wv = Inr wx"
    "length wx = length wv"
    "\<forall>i < N. \<forall>j < d. wx ! (j * N + i) = (?x1s ! i ! j - omega_F0 F ! i ! j) / dt"
    "\<forall>k. d * N \<le> k \<and> k < length wv \<longrightarrow> wx ! k = wv ! k" by blast
  let ?F' = "F\<lparr>omega_F1 := ?x1s, mesh_velocity_w := Some wx,
                fluid_calls := fluid_calls F @ [Smooth n, Reassemble]\<rparr>"
  have r: "update_mesh_displacement smoothing_pass F U_M dt n = Inr ?F'"
    by (simp add: update_mesh_displacement_def Let_def N assms(4,6) l1 wx(1))
  have ex: "update_extra ?F' = Inr (?F'\<lparr>omega_F0 := omega_F1 ?F'\<rparr>)"
    using sh assms(2) by (simp add: update_extra_def has_shape_iff)
  have "omega_F1 ?F' = (smoothing_pass ^^ n) ?x1" by (simp add: smooth_def)
  moreover have "\<forall>i < N. \<forall>j < d. wx ! (j * N + i) = (omega_F1 ?F' ! i ! j - omega_F0 F ! i ! j) / dt"
    using wx(3) by simp
  ultimately show ?thesis using r ex wx(2,4) assms(4)
    by (intro exI[of _ ?F'] exI[of _ wx]) simp
qed


text \<open>Both vertices move by 1/2 along the first axis within a time step of 1/2: the mesh
  velocity is 1 along that axis.\<close>
theorem mesh_displacement_transfer_witness:
  "\<exists>F' wx. update_mesh_displacement (\<lambda>x. x) stub_fluid [1/2, 1/2, 0, 0] (1/2) 1 = Inr F'
     \<and> omega_F1 F' = [[1/2, 0], [3/2, 0]]
     \<and> mesh_velocity_w F' = Some wx \<and> length wx = 4
     \<and> wx ! 0 = 1 \<and> wx ! 1 = 1 \<and> wx ! 2 = 0 \<and> wx ! 3 = 0
     \<and> omega_F0 F' = [[0, 0], [1, 0]]
     \<and> fluid_calls F' = [Smooth 1, Reassemble]"
proof -
  have a: "has_shape 2 2 (Omega_F stub_fluid)" "has_shape 2 2 (omega_F0 stub_fluid)"
    "has_shape 2 2 (omega_F1 stub_fluid)" "geometry_dim stub_fluid = 2"
    by (simp_all add: has_shape_def stub_fluid_def)
  have b: "2 * 2 \<le> length [1/2, 1/2, 0, 0::real]" by simp
  have c: "mesh_velocity_w stub_fluid = Some [0, 0, 0, 0]" "2 * 2 \<le> length [0, 0, 0, 0::real]"
    by (simp_all add: stub_fluid_def)
  have d: "(1/2::real) \<noteq> 0" by simp
  have e: "\<forall>x::real list list. map length ((\<lambda>x. x) x) = map length x" by simp
  from mesh_displacement_transfer[OF a b c d e, of 1] obtain F' wx where
    r: "update_mesh_displacement (\<lambda>x. x) stub_fluid [1/2, 1/2, 0, 0] (1/2) 1 = Inr F'"
    and x1: "omega_F1 F' = ((\<lambda>x. x) ^^ 1) (displaced (Omega_F stub_fluid) [1/2, 1/2, 0, 0] 2 2)"
    and w: "mesh_velocity_w F' = Some wx" "length wx = length [0, 0, 0, 0::real]"
    and v: "\<forall>i < 2. \<forall>j < 2. wx ! (j * 2 + i) = (omega_F1 F' ! i ! j - omega_F0 stub_fluid ! i ! j) / (1/2)"
    and x0: "omega_F0 F' = omega_F0 stub_fluid"
    and fc: "fluid_calls F' = fluid_calls stub_fluid @ [Smooth 1, Reassemble]"
    by blast
  have x1': "omega_F1 F' = [[1/2, 0], [3/2, 0]]"
    unfolding x1 by (simp add: displaced_def stub_fluid_def upt_conv_Cons)
  have "wx ! (0 * 2 + 0) = 1" "wx ! (0 * 2 + 1) = 1" "wx ! (1 * 2 + 0) = 0" "wx ! (1 * 2 + 1) = 0"
    using v[rule_format, of 0 0] v[rule_format, of 1 0] v[rule_format, of 0 1] v[rule_format, of 1 1]
    unfolding x1' by (simp_all add: stub_fluid_def)
  then have "wx ! 0 = 1" "wx ! 1 = 1" "wx ! 2 = 0" "wx ! 3 = 0" by simp_all
  with r x1' w x0 fc show ?thesis by (simp add: stub_fluid_def)
qed


end
